theory Spec2Isabelle
  imports Main "HOL-Library.Sublist" "HOL-Library.Word"
begin

section \<open>Python values and strings\<close>

text \<open>
  A Python \<open>str\<close> is a sequence of Unicode code points, so it is modelled as a list of
  naturals; \<open>ascii\<close> turns a literal of the theory into such a string.  \<open>bytes\<close> are
  lists of octets.
\<close>

type_synonym pystr = "nat list"
type_synonym bytes = "8 word list"

definition ascii :: "string \<Rightarrow> pystr" where
  "ascii s = map of_char s"

text \<open>The exceptions that the modelled code can see.\<close>

datatype exc =
    RuntimeError pystr
  | ValueError
  | IndexError
  | AttributeError
  | JSONDecodeError
  | OtherError pystr

text \<open>
  The values that \<open>json.loads\<close> can return, and so the values that
  \<open>st.session_state["pdf_extracted"]\<close> and the verdict can hold.  A float is kept as its
  IEEE-754 bit pattern; a dict is its list of items in insertion order.
\<close>

datatype pyval =
    PNone
  | PBool bool
  | PInt int
  | PFloat "64 word"
  | PStr pystr
  | PList "pyval list"
  | PDict "(pystr \<times> pyval) list"

text \<open>Truth value testing (\<open>if x:\<close>, \<open>not x\<close>).\<close>

fun py_truthy :: "pyval \<Rightarrow> bool" where
  "py_truthy PNone = False"
| "py_truthy (PBool b) = b"
| "py_truthy (PInt i) = (i \<noteq> 0)"
| "py_truthy (PFloat w) = (take_bit 63 w \<noteq> 0)"
| "py_truthy (PStr s) = (s \<noteq> [])"
| "py_truthy (PList xs) = (xs \<noteq> [])"
| "py_truthy (PDict kvs) = (kvs \<noteq> [])"

text \<open>\<open>x == False\<close>: \<open>False\<close>, \<open>0\<close>, \<open>0.0\<close> and \<open>-0.0\<close> compare equal to \<open>False\<close>.\<close>

fun py_eq_False :: "pyval \<Rightarrow> bool" where
  "py_eq_False (PBool b) = (\<not> b)"
| "py_eq_False (PInt i) = (i = 0)"
| "py_eq_False (PFloat w) = (take_bit 63 w = 0)"
| "py_eq_False _ = False"

text \<open>\<open>isinstance(x, (dict, list))\<close>.\<close>

fun is_dict_or_list :: "pyval \<Rightarrow> bool" where
  "is_dict_or_list (PList _) = True"
| "is_dict_or_list (PDict _) = True"
| "is_dict_or_list _ = False"

text \<open>\<open>d.get(key, default)\<close> on a dict.\<close>

definition dict_get :: "(pystr \<times> pyval) list \<Rightarrow> pystr \<Rightarrow> pyval \<Rightarrow> pyval" where
  "dict_get d k dflt = (case map_of d k of Some v \<Rightarrow> v | None \<Rightarrow> dflt)"

subsection \<open>String methods\<close>

text \<open>\<open>str.isspace\<close> on one code point: the white space that \<open>str.strip()\<close> removes.\<close>

definition py_isspace :: "nat \<Rightarrow> bool" where
  "py_isspace c \<longleftrightarrow>
     (9 \<le> c \<and> c \<le> 13) \<or> (28 \<le> c \<and> c \<le> 32) \<or> c = 133 \<or> c = 160 \<or> c = 5760 \<or>
     (8192 \<le> c \<and> c \<le> 8202) \<or> c = 8232 \<or> c = 8233 \<or> c = 8239 \<or> c = 8287 \<or> c = 12288"

definition strip :: "pystr \<Rightarrow> pystr" where
  "strip s = rev (dropWhile py_isspace (rev (dropWhile py_isspace s)))"

text \<open>\<open>s.find(sep)\<close> and \<open>s.rfind(sep)\<close>: the lowest and the highest index at which
  \<open>sep\<close> occurs in \<open>s\<close>, \<open>None\<close> for Python's \<open>-1\<close>.\<close>

fun str_find :: "pystr \<Rightarrow> pystr \<Rightarrow> nat option" where
  "str_find [] sep = (if sep = [] then Some 0 else None)"
| "str_find (c # cs) sep =
     (if prefix sep (c # cs) then Some 0 else map_option Suc (str_find cs sep))"

fun str_rfind :: "pystr \<Rightarrow> pystr \<Rightarrow> nat option" where
  "str_rfind [] sep = (if sep = [] then Some 0 else None)"
| "str_rfind (c # cs) sep =
     (case str_rfind cs sep of
        Some i \<Rightarrow> Some (Suc i)
      | None \<Rightarrow> if prefix sep (c # cs) then Some 0 else None)"

text \<open>\<open>sep in s\<close>.\<close>

definition str_contains :: "pystr \<Rightarrow> pystr \<Rightarrow> bool" where
  "str_contains sep s \<longleftrightarrow> str_find s sep \<noteq> None"

text \<open>\<open>s.split(sep, 1)\<close> and \<open>s.rsplit(sep, 1)\<close>: at most one cut, at the leftmost and at
  the rightmost occurrence of \<open>sep\<close>; an empty separator raises \<open>ValueError\<close>.\<close>

definition split1 :: "pystr \<Rightarrow> pystr \<Rightarrow> exc + pystr list" where
  "split1 s sep =
     (if sep = [] then Inl ValueError
      else case str_find s sep of
             None \<Rightarrow> Inr [s]
           | Some i \<Rightarrow> Inr [take i s, drop (i + length sep) s])"

definition rsplit1 :: "pystr \<Rightarrow> pystr \<Rightarrow> exc + pystr list" where
  "rsplit1 s sep =
     (if sep = [] then Inl ValueError
      else case str_rfind s sep of
             None \<Rightarrow> Inr [s]
           | Some i \<Rightarrow> Inr [take i s, drop (i + length sep) s])"

text \<open>\<open>xs[i]\<close> for a non-negative index.\<close>

definition index :: "'a list \<Rightarrow> nat \<Rightarrow> exc + 'a" where
  "index xs i = (if i < length xs then Inr (xs ! i) else Inl IndexError)"

text \<open>Sequencing of computations that may raise.\<close>

definition and_then :: "exc + 'a \<Rightarrow> ('a \<Rightarrow> exc + 'b) \<Rightarrow> exc + 'b" where
  "and_then r f = (case r of Inl e \<Rightarrow> Inl e | Inr x \<Rightarrow> f x)"

section \<open>Cleaning code-block wrappers: \<open>_clean_model_json\<close>\<close>

definition fence :: pystr where
  "fence = ascii ''```''"

definition fence_json :: pystr where
  "fence_json = ascii ''```json''"

text \<open>The expression \<open>text.split(opener, 1)[1].rsplit("```", 1)[0].strip()\<close>.\<close>

definition fenced_part :: "pystr \<Rightarrow> pystr \<Rightarrow> exc + pystr" where
  "fenced_part text opener =
     and_then (split1 text opener) (\<lambda>parts.
     and_then (index parts 1) (\<lambda>rest.
     and_then (rsplit1 rest fence) (\<lambda>parts'.
     and_then (index parts' 0) (\<lambda>body. Inr (strip body)))))"

text \<open>One \<open>if opener in text: try: return ... except Exception: pass\<close> block: \<open>Some\<close> is
  the returned value, \<open>None\<close> means that control falls through to the next statement.\<close>

definition try_fence :: "pystr \<Rightarrow> pystr \<Rightarrow> pystr option" where
  "try_fence text opener =
     (if str_contains opener text
      then (case fenced_part text opener of Inr r \<Rightarrow> Some r | Inl e \<Rightarrow> None)
      else None)"

definition clean_model_json :: "pystr \<Rightarrow> pystr" where
  "clean_model_json text =
     (case try_fence text fence_json of
        Some r \<Rightarrow> r
      | None \<Rightarrow>
         (case try_fence text fence of
            Some r \<Rightarrow> r
          | None \<Rightarrow> strip text))"

subsection \<open>The reading of the specification\<close>

text \<open>
  For comparison with \<open>clean_model_json\<close>, the first step of the Response Normalizer
  as the specification words it: the content between the first fence pair tagged as
  JSON, that is from the first opening fence to the first fence after it; else the
  content between the first generic fence pair; else the text; trimmed in each case.
\<close>

definition first_pair :: "pystr \<Rightarrow> pystr \<Rightarrow> pystr option" where
  "first_pair text opener =
     (case str_find text opener of
        None \<Rightarrow> None
      | Some i \<Rightarrow>
          (let rest = drop (i + length opener) text
           in case str_find rest fence of
                None \<Rightarrow> None
              | Some j \<Rightarrow> Some (take j rest)))"

definition spec_defence :: "pystr \<Rightarrow> pystr" where
  "spec_defence text =
     (case first_pair text fence_json of
        Some body \<Rightarrow> strip body
      | None \<Rightarrow>
          (case first_pair text fence of
             Some body \<Rightarrow> strip body
           | None \<Rightarrow> strip text))"

text \<open>A text with two fenced blocks.\<close>

definition two_blocks :: pystr where
  "two_blocks = ascii ''```json\<newline>1\<newline>```\<newline>```json\<newline>2\<newline>```''"

section \<open>The environment of the script\<close>

text \<open>
  One request to the model service: the model name, the single binary part with its MIME
  type, the text part and the system instruction.
\<close>

record request =
  model :: pystr
  part_data :: "bytes option"
  part_mime :: pystr
  part_text :: pystr
  system_instruction :: pystr

text \<open>
  What the script takes from outside: the API key of the process environment, the model
  service (building the client and the content parts and calling \<open>generate_content\<close>; the
  result is the \<open>text\<close> attribute of the response, which may be \<open>None\<close>, or the
  exception raised), SHA-256, and the library functions \<open>json.loads\<close>, \<open>json.dumps\<close> and
  \<open>repr\<close>.
\<close>

record env =
  api_key :: "pystr option"
  generate_content :: "request \<Rightarrow> exc + pystr option"
  sha256 :: "bytes \<Rightarrow> 256 word"
  json_loads :: "pystr \<Rightarrow> exc + pyval"
  json_dumps :: "pyval \<Rightarrow> pystr"
  py_repr :: "pyval \<Rightarrow> pystr"

text \<open>\<open>str(x)\<close>: a string is itself, any other value is its \<open>repr\<close>.\<close>

definition to_str :: "env \<Rightarrow> pyval \<Rightarrow> pystr" where
  "to_str e v = (case v of PStr s \<Rightarrow> s | _ \<Rightarrow> py_repr e v)"

text \<open>\<open>.hexdigest()\<close>: the 64 lower-case hexadecimal digits of the digest.\<close>

definition hex_digit :: "nat \<Rightarrow> nat" where
  "hex_digit d = (if d < 10 then 48 + d else 87 + d)"

definition hexdigest :: "256 word \<Rightarrow> pystr" where
  "hexdigest w = map (\<lambda>i. hex_digit (unat (take_bit 4 (drop_bit (4 * (63 - i)) w)))) [0..<64]"

text \<open>Truth value of an optional string: \<open>None\<close> and \<open>""\<close> are false.\<close>

definition truthy_opt :: "pystr option \<Rightarrow> bool" where
  "truthy_opt x = (case x of None \<Rightarrow> False | Some s \<Rightarrow> s \<noteq> [])"

text \<open>An uploaded file: what reading its bytes gives, and its \<open>type\<close> attribute.\<close>

record upload =
  read_result :: "exc + bytes"
  file_type :: "pystr option"

record inputs =
  image_file :: "upload option"
  pdf_file :: "upload option"

text \<open>The keys of \<open>st.session_state\<close>.\<close>

record session =
  authenticated :: bool
  pdf_extracted :: pyval
  pdf_extract_raw :: "pystr option"
  pdf_hash :: "pystr option"
  pdf_system_prompt :: pystr
  show_pdf_extracted :: bool

text \<open>
  What a run of the handler does to the outside, in order: the two kinds of outbound
  call, the Streamlit elements it writes, and an exception that no handler catches.
\<close>

datatype card = SuccessCard | ErrorCard | WarningCard

datatype effect =
    ExtractCall request
  | AuditCall request
  | StErrorNoImage
  | StErrorImageRead exc
  | StWarningPdfRead exc
  | StSuccessExtraction
  | StHeadingExtracted
  | StJson pyval
  | StMarkdown pystr
  | StErrorExtraction exc
  | StInfoCached
  | StErrorAnalysis exc
  | StHeadingResult
  | StResultCard card pyval pyval pyval
  | StUnparsedCard pystr
  | Uncaught exc

section \<open>The two calls to the model\<close>

text \<open>\<open>response.text.strip()\<close>.\<close>

definition response_text :: "exc + pystr option \<Rightarrow> exc + pystr" where
  "response_text r =
     (case r of
        Inl e \<Rightarrow> Inl e
      | Inr None \<Rightarrow> Inl AttributeError
      | Inr (Some t) \<Rightarrow> Inr (strip t))"

definition missing_key :: exc where
  "missing_key = RuntimeError (ascii ''GEMINI_API_KEY not set in environment.'')"

definition extract_request :: "bytes option \<Rightarrow> pystr \<Rightarrow> request" where
  "extract_request pdf_bytes system_prompt =
     \<lparr>model = ascii ''gemini-2.5-flash'',
      part_data = pdf_bytes,
      part_mime = ascii ''application/pdf'',
      part_text = ascii ''Please extract requested information from the attached PDF and return ONLY JSON or concise text.'',
      system_instruction = system_prompt\<rparr>"

definition extract_from_pdf :: "env \<Rightarrow> bytes option \<Rightarrow> pystr \<Rightarrow> (exc + pystr) \<times> effect list" where
  "extract_from_pdf e pdf_bytes system_prompt =
     (if \<not> truthy_opt (api_key e) then (Inl missing_key, [])
      else let req = extract_request pdf_bytes system_prompt
           in (response_text (generate_content e req), [ExtractCall req]))"

definition base_system :: pystr where
  \<open>base_system =
     ascii ''You are a Hotel QA Specialist. Evaluate the provided image for compliance with cleanliness, '' @
     ascii ''consistency, and maintenance standards. Use the following key categories when classifying findings:\<newline>\<newline>'' @
     ascii ''1. Condition '' @ [8211] @ ascii '' Issues related to wear, damage, or deterioration of materials or fixtures (e.g., peeling drawers, faded paint, broken parts).\<newline>'' @
     ascii ''2. Cleanliness '' @ [8211] @ ascii '' Issues involving dirt, stains, or maintenance of hygiene and visual appearance (e.g., dirty surfaces, stains, debris).\<newline>'' @
     ascii ''3. Compliance '' @ [8211] @ ascii '' Issues involving deviation from brand standards or design specifications (e.g., incorrect fixtures, missing required items).\<newline>\<newline>'' @
     ascii ''Respond STRICTLY in JSON with the following top-level fields only:\<newline>'' @
     ascii ''{\<newline>'' @
     ascii ''  "Issue_Present": true|false,                  // overall boolean\<newline>'' @
     ascii ''  "Category": "Condition"|"Cleanliness"|"Compliance",  // primary category for the issue\<newline>'' @
     ascii ''  "Description": "Concise explanation of the finding",\<newline>'' @
     ascii ''  "Resolution": "Specific words to correct the issue", // like replace, paint, remove, wash, clean etc.\<newline>'' @
     ascii ''  ]\<newline>'' @
     ascii ''}\<newline>\<newline>'' @
     ascii ''Do not include any extra text, commentary, or code blocks. If multiple issues exist, choose the primary Category that best represents the most important issue and list others in Findings.''\<close>

definition context_header :: pystr where
  "context_header = ascii ''\<newline>\<newline>Context from brand standards (extracted):\<newline>''"

text \<open>The \<open>system_instruction_text\<close> that \<open>call_gemini_api\<close> computes from its third
  argument.\<close>

definition system_instruction_text :: "env \<Rightarrow> pyval \<Rightarrow> pystr" where
  "system_instruction_text e ctx =
     (if py_truthy ctx
      then base_system @ context_header @
           (if is_dict_or_list ctx then json_dumps e ctx else to_str e ctx)
      else base_system)"

definition audit_request :: "bytes \<Rightarrow> pystr \<Rightarrow> pystr \<Rightarrow> request" where
  "audit_request image_bytes image_mime instruction =
     \<lparr>model = ascii ''gemini-2.5-flash'',
      part_data = Some image_bytes,
      part_mime = image_mime,
      part_text = ascii ''Analyze this single image and return the JSON result described in system instruction.'',
      system_instruction = instruction\<rparr>"

definition call_gemini_api :: "env \<Rightarrow> bytes \<Rightarrow> pystr \<Rightarrow> pyval \<Rightarrow> (exc + pystr) \<times> effect list" where
  "call_gemini_api e image_bytes image_mime ctx =
     (if \<not> truthy_opt (api_key e) then (Inl missing_key, [])
      else let req = audit_request image_bytes image_mime (system_instruction_text e ctx)
           in (response_text (generate_content e req), [AuditCall req]))"

section \<open>The Submit handler\<close>

text \<open>
  The block under \<open>if pdf_file:\<close>: hash the document, extract when nothing usable is
  cached or the hash changed, otherwise reuse.  The result is the session, the local
  \<open>pdf_ctx\<close> and the effects.
\<close>

definition read_pdf :: "env \<Rightarrow> upload \<Rightarrow> bytes option \<times> pystr option \<times> effect list" where
  "read_pdf e f =
     (case read_result f of
        Inr b \<Rightarrow> (Some b, Some (hexdigest (sha256 e b)), [])
      | Inl err \<Rightarrow> (None, None, [StWarningPdfRead err]))"

definition needs_extraction :: "session \<Rightarrow> pystr option \<Rightarrow> bool" where
  "needs_extraction s new_hash \<longleftrightarrow>
     \<not> py_truthy (pdf_extracted s) \<or> (truthy_opt new_hash \<and> pdf_hash s \<noteq> new_hash)"

definition parse_or_raw :: "env \<Rightarrow> pystr \<Rightarrow> pyval" where
  "parse_or_raw e extracted_text =
     (case json_loads e (clean_model_json extracted_text) of
        Inr v \<Rightarrow> v
      | Inl err \<Rightarrow> PStr extracted_text)"

definition run_extraction ::
  "env \<Rightarrow> bytes option \<Rightarrow> pystr option \<Rightarrow> session \<Rightarrow> session \<times> pyval \<times> effect list" where
  "run_extraction e pdf_bytes new_hash s =
     (case extract_from_pdf e pdf_bytes (pdf_system_prompt s) of
        (Inr extracted_text, calls) \<Rightarrow>
          (let extracted = parse_or_raw e extracted_text
           in (s\<lparr>pdf_extract_raw := Some extracted_text,
                  pdf_extracted := extracted,
                  pdf_hash := new_hash,
                  show_pdf_extracted := True\<rparr>,
               extracted,
               calls @ [StSuccessExtraction, StHeadingExtracted,
                        if is_dict_or_list extracted then StJson extracted
                        else StMarkdown extracted_text]))
      | (Inl err, calls) \<Rightarrow>
          (s\<lparr>pdf_extract_raw := None, pdf_extracted := PNone\<rparr>,
           PNone,
           calls @ [StErrorExtraction err]))"

definition pdf_step :: "env \<Rightarrow> upload option \<Rightarrow> session \<Rightarrow> session \<times> pyval \<times> effect list" where
  "pdf_step e pdf s =
     (case pdf of
        None \<Rightarrow> (s, pdf_extracted s, [])
      | Some f \<Rightarrow>
          (case read_pdf e f of (pdf_bytes, new_hash, warn) \<Rightarrow>
             if needs_extraction s new_hash
             then (case run_extraction e pdf_bytes new_hash s of
                     (s', ctx, tr) \<Rightarrow> (s', ctx, warn @ tr))
             else (s, pdf_extracted s, warn @ [StInfoCached])))"

text \<open>The display of the verdict, from \<open>st.markdown("### ... QA Analysis Result")\<close> on.\<close>

definition display_result :: "env \<Rightarrow> pystr \<Rightarrow> effect list" where
  "display_result e result_text =
     StHeadingResult #
     (case json_loads e (clean_model_json result_text) of
        Inr (PDict d) \<Rightarrow>
          (let compliant = dict_get d (ascii ''Issue_Present'') (PBool False);
               category = dict_get d (ascii ''Category'') (PStr (ascii ''Unknown''));
               description = dict_get d (ascii ''Description'') (PStr (ascii ''No description provided.''));
               resolution = dict_get d (ascii ''Resolution'') (PStr (ascii ''No Soultion provided.''))
           in [StResultCard (if py_eq_False compliant then SuccessCard else ErrorCard)
                 category description resolution])
      | Inr v \<Rightarrow> [Uncaught AttributeError]
      | Inl JSONDecodeError \<Rightarrow> [StUnparsedCard result_text]
      | Inl err \<Rightarrow> [Uncaught err])"

definition default_mime :: pystr where
  "default_mime = ascii ''image/jpeg''"

text \<open>\<open>getattr(image_file, "type", None) or "image/jpeg"\<close>.\<close>

definition image_mime_of :: "upload \<Rightarrow> pystr" where
  "image_mime_of img =
     (case file_type img of
        None \<Rightarrow> default_mime
      | Some t \<Rightarrow> if t \<noteq> [] then t else default_mime)"

text \<open>The image analysis and the display: from \<open>with st.spinner("Analyzing image ...")\<close>
  to the end of the handler.\<close>

definition audit_step :: "env \<Rightarrow> bytes \<Rightarrow> pystr \<Rightarrow> pyval \<Rightarrow> effect list" where
  "audit_step e image_bytes image_mime pdf_ctx =
     (case call_gemini_api e image_bytes image_mime pdf_ctx of
        (Inl err, calls) \<Rightarrow> calls @ [StErrorAnalysis err]
      | (Inr result_text, calls) \<Rightarrow>
          if result_text = [] then calls
          else calls @ display_result e result_text)"

text \<open>The whole block under \<open>if st.button("Submit"):\<close>.\<close>

definition submit :: "env \<Rightarrow> inputs \<Rightarrow> session \<Rightarrow> session \<times> effect list" where
  "submit e inp s =
     (case image_file inp of
        None \<Rightarrow> (s, [StErrorNoImage])
      | Some img \<Rightarrow>
          (case read_result img of
             Inl err \<Rightarrow> (s, [StErrorImageRead err])
           | Inr image_bytes \<Rightarrow>
               (let image_mime = image_mime_of img
                in case pdf_step e (pdf_file inp) s of (s', pdf_ctx, tr) \<Rightarrow>
                     (s', tr @ audit_step e image_bytes image_mime pdf_ctx))))"

text \<open>The outbound calls among the effects of a run.\<close>

definition extract_calls :: "effect list \<Rightarrow> request list" where
  "extract_calls tr = concat (map (\<lambda>x. case x of ExtractCall r \<Rightarrow> [r] | _ \<Rightarrow> []) tr)"

definition audit_calls :: "effect list \<Rightarrow> request list" where
  "audit_calls tr = concat (map (\<lambda>x. case x of AuditCall r \<Rightarrow> [r] | _ \<Rightarrow> []) tr)"

section \<open>A reference environment\<close>

text \<open>
  The library functions are parameters of the model.  To run the model on concrete
  inputs they are instantiated by the functions of this section, which follow the
  Python library on a fragment of JSON: no floats, no \<open>\u\<close> escapes when reading.  Outside
  the fragment the reader answers \<open>OtherError\<close>.
\<close>

definition json_ws :: "nat \<Rightarrow> bool" where
  "json_ws c \<longleftrightarrow> c = 32 \<or> c = 9 \<or> c = 10 \<or> c = 13"

definition is_digit :: "nat \<Rightarrow> bool" where
  "is_digit c \<longleftrightarrow> 48 \<le> c \<and> c \<le> 57"

definition unsupported :: exc where
  "unsupported = OtherError (ascii ''outside the JSON fragment of the reference reader'')"

text \<open>The characters of a string literal after the opening quote.\<close>

fun read_string :: "pystr \<Rightarrow> pystr \<Rightarrow> exc + pystr \<times> pystr" where
  "read_string [] acc = Inl JSONDecodeError"
| "read_string (c # cs) acc =
     (if c = 34 then Inr (rev acc, cs)
      else if c < 32 then Inl JSONDecodeError
      else if c \<noteq> 92 then read_string cs (c # acc)
      else (case cs of
              [] \<Rightarrow> Inl JSONDecodeError
            | d # ds \<Rightarrow>
                if d = 34 \<or> d = 92 \<or> d = 47 then read_string ds (d # acc)
                else if d = 98 then read_string ds (8 # acc)
                else if d = 102 then read_string ds (12 # acc)
                else if d = 110 then read_string ds (10 # acc)
                else if d = 114 then read_string ds (13 # acc)
                else if d = 116 then read_string ds (9 # acc)
                else if d = 117 then Inl unsupported
                else Inl JSONDecodeError))"

definition digits_value :: "pystr \<Rightarrow> int" where
  "digits_value ds = foldl (\<lambda>a c. 10 * a + int (c - 48)) 0 ds"

text \<open>An integer literal: \<open>0\<close> or a digit sequence without a leading zero.\<close>

definition read_int :: "pystr \<Rightarrow> exc + int \<times> pystr" where
  "read_int s =
     (let ds = (case s of [] \<Rightarrow> [] | c # cs \<Rightarrow> if c = 48 then [c] else takeWhile is_digit s);
          rest = drop (length ds) s
      in if ds = [] then Inl JSONDecodeError
         else if rest \<noteq> [] \<and> (hd rest = 46 \<or> hd rest = 101 \<or> hd rest = 69) then Inl unsupported
         else Inr (digits_value ds, rest))"

text \<open>Assignment to a key of a dict: a new key goes last, a known key keeps its place.\<close>

fun dict_set :: "(pystr \<times> pyval) list \<Rightarrow> pystr \<Rightarrow> pyval \<Rightarrow> (pystr \<times> pyval) list" where
  "dict_set [] k v = [(k, v)]"
| "dict_set (p # ps) k v = (if fst p = k then (k, v) # ps else p # dict_set ps k v)"

text \<open>The recursive-descent reader; the first argument bounds the number of calls.\<close>

fun read_value :: "nat \<Rightarrow> pystr \<Rightarrow> exc + pyval \<times> pystr"
  and read_items :: "nat \<Rightarrow> pystr \<Rightarrow> pyval list \<Rightarrow> exc + pyval \<times> pystr"
  and read_members :: "nat \<Rightarrow> pystr \<Rightarrow> (pystr \<times> pyval) list \<Rightarrow> exc + pyval \<times> pystr"
where
  "read_value 0 s = Inl unsupported"
| "read_value (Suc n) s =
     (case s of
        [] \<Rightarrow> Inl JSONDecodeError
      | c # cs \<Rightarrow>
          if c = 34 then
            (case read_string cs [] of Inl e \<Rightarrow> Inl e | Inr (str, rest) \<Rightarrow> Inr (PStr str, rest))
          else if c = 91 then
            (case dropWhile json_ws cs of
               [] \<Rightarrow> Inl JSONDecodeError
             | d # ds \<Rightarrow> if d = 93 then Inr (PList [], ds) else read_items n (d # ds) [])
          else if c = 123 then
            (case dropWhile json_ws cs of
               [] \<Rightarrow> Inl JSONDecodeError
             | d # ds \<Rightarrow> if d = 125 then Inr (PDict [], ds) else read_members n (d # ds) [])
          else if prefix (ascii ''null'') s then Inr (PNone, drop 4 s)
          else if prefix (ascii ''true'') s then Inr (PBool True, drop 4 s)
          else if prefix (ascii ''false'') s then Inr (PBool False, drop 5 s)
          else if prefix (ascii ''NaN'') s \<or> prefix (ascii ''Infinity'') s
                  \<or> prefix (ascii ''-Infinity'') s then Inl unsupported
          else if c = 45 then
            (case read_int cs of Inl e \<Rightarrow> Inl e | Inr (i, rest) \<Rightarrow> Inr (PInt (- i), rest))
          else (case read_int s of Inl e \<Rightarrow> Inl e | Inr (i, rest) \<Rightarrow> Inr (PInt i, rest)))"
| "read_items 0 s acc = Inl unsupported"
| "read_items (Suc n) s acc =
     (case read_value n s of
        Inl e \<Rightarrow> Inl e
      | Inr (v, rest) \<Rightarrow>
          (case dropWhile json_ws rest of
             [] \<Rightarrow> Inl JSONDecodeError
           | c # cs \<Rightarrow>
               if c = 93 then Inr (PList (acc @ [v]), cs)
               else if c = 44 then read_items n (dropWhile json_ws cs) (acc @ [v])
               else Inl JSONDecodeError))"
| "read_members 0 s acc = Inl unsupported"
| "read_members (Suc n) s acc =
     (case s of
        [] \<Rightarrow> Inl JSONDecodeError
      | q # qs \<Rightarrow>
          if q \<noteq> 34 then Inl JSONDecodeError
          else (case read_string qs [] of
                  Inl e \<Rightarrow> Inl e
                | Inr (k, rest) \<Rightarrow>
                    (case dropWhile json_ws rest of
                       [] \<Rightarrow> Inl JSONDecodeError
                     | c # cs \<Rightarrow>
                         if c \<noteq> 58 then Inl JSONDecodeError
                         else (case read_value n (dropWhile json_ws cs) of
                                 Inl e \<Rightarrow> Inl e
                               | Inr (v, rest') \<Rightarrow>
                                   (case dropWhile json_ws rest' of
                                      [] \<Rightarrow> Inl JSONDecodeError
                                    | c' # cs' \<Rightarrow>
                                        if c' = 125 then Inr (PDict (dict_set acc k v), cs')
                                        else if c' = 44
                                        then read_members n (dropWhile json_ws cs') (dict_set acc k v)
                                        else Inl JSONDecodeError)))))"

definition ref_loads :: "pystr \<Rightarrow> exc + pyval" where
  "ref_loads s =
     (case read_value (Suc (length s)) (dropWhile json_ws s) of
        Inl e \<Rightarrow> Inl e
      | Inr (v, rest) \<Rightarrow> if dropWhile json_ws rest = [] then Inr v else Inl JSONDecodeError)"

text \<open>\<open>json.dumps\<close> with its default settings (\<open>ensure_ascii\<close>, separators \<open>", "\<close> and
  \<open>": "\<close>); a float is outside the fragment.\<close>

function dec_digits :: "nat \<Rightarrow> pystr" where
  "dec_digits n = (if n < 10 then [48 + n] else dec_digits (n div 10) @ [48 + n mod 10])"
  by pat_completeness auto
termination
  by (relation "measure id") auto

definition dec_int :: "int \<Rightarrow> pystr" where
  "dec_int i = (if i < 0 then 45 # dec_digits (nat (- i)) else dec_digits (nat i))"

definition hex4 :: "nat \<Rightarrow> pystr" where
  "hex4 n = map (\<lambda>k. hex_digit ((n div 16 ^ k) mod 16)) [3, 2, 1, 0]"

definition escape_char :: "nat \<Rightarrow> pystr" where
  "escape_char c =
     (if c = 34 then [92, 34]
      else if c = 92 then [92, 92]
      else if c = 10 then [92, 110]
      else if c = 13 then [92, 114]
      else if c = 9 then [92, 116]
      else if c = 8 then [92, 98]
      else if c = 12 then [92, 102]
      else if 32 \<le> c \<and> c \<le> 126 then [c]
      else if c < 65536 then [92, 117] @ hex4 c
      else [92, 117] @ hex4 (55296 + (c - 65536) div 1024) @
           [92, 117] @ hex4 (56320 + (c - 65536) mod 1024))"

definition quote :: "pystr \<Rightarrow> pystr" where
  "quote s = [34] @ concat (map escape_char s) @ [34]"

fun join :: "pystr \<Rightarrow> pystr list \<Rightarrow> pystr" where
  "join sep [] = []"
| "join sep [x] = x"
| "join sep (x # y # ys) = x @ sep @ join sep (y # ys)"

fun ref_dumps :: "pyval \<Rightarrow> pystr" where
  "ref_dumps PNone = ascii ''null''"
| "ref_dumps (PBool b) = (if b then ascii ''true'' else ascii ''false'')"
| "ref_dumps (PInt i) = dec_int i"
| "ref_dumps (PFloat w) = ascii ''NaN''"
| "ref_dumps (PStr s) = quote s"
| "ref_dumps (PList xs) = ascii ''['' @ join (ascii '', '') (map ref_dumps xs) @ ascii '']''"
| "ref_dumps (PDict kvs) =
     ascii ''{'' @
     join (ascii '', '') (map (\<lambda>kv. quote (fst kv) @ ascii '': '' @ ref_dumps (snd kv)) kvs) @
     ascii ''}''"

text \<open>\<open>repr\<close> of the scalars that are not strings; the script takes \<open>str\<close> of nothing
  else.\<close>

definition ref_repr :: "pyval \<Rightarrow> pystr" where
  "ref_repr v =
     (case v of
        PNone \<Rightarrow> ascii ''None''
      | PBool b \<Rightarrow> (if b then ascii ''True'' else ascii ''False'')
      | PInt i \<Rightarrow> dec_int i
      | _ \<Rightarrow> ascii ''nan'')"

text \<open>A polynomial checksum in the place of SHA-256.\<close>

definition ref_digest :: "bytes \<Rightarrow> 256 word" where
  "ref_digest bs = foldl (\<lambda>a b. a * 257 + ucast b + 1) 0 bs"

text \<open>A model service that answers every PDF request with \<open>on_pdf\<close> and every other
  request with \<open>on_image\<close>.\<close>

definition scripted :: "exc + pystr option \<Rightarrow> exc + pystr option \<Rightarrow> request \<Rightarrow> exc + pystr option" where
  "scripted on_pdf on_image req =
     (if part_mime req = ascii ''application/pdf'' then on_pdf else on_image)"

definition ref_env :: "exc + pystr option \<Rightarrow> exc + pystr option \<Rightarrow> env" where
  "ref_env on_pdf on_image =
     \<lparr>api_key = Some (ascii ''k''),
      generate_content = scripted on_pdf on_image,
      sha256 = ref_digest,
      json_loads = ref_loads,
      json_dumps = ref_dumps,
      py_repr = ref_repr\<rparr>"

text \<open>Concrete uploads and sessions for the examples.\<close>

definition png :: upload where
  "png = \<lparr>read_result = Inr [137, 80, 78, 71], file_type = Some (ascii ''image/png'')\<rparr>"

definition pdf :: upload where
  "pdf = \<lparr>read_result = Inr [37, 80, 68, 70], file_type = Some (ascii ''application/pdf'')\<rparr>"

definition fresh :: session where
  "fresh = \<lparr>authenticated = True, pdf_extracted = PNone, pdf_extract_raw = None,
            pdf_hash = None, pdf_system_prompt = ascii ''Extract.'', show_pdf_extracted = False\<rparr>"

text \<open>A session that holds an extraction of an earlier document.\<close>

definition stale :: session where
  "stale = \<lparr>authenticated = True, pdf_extracted = PStr (ascii ''old spec''),
            pdf_extract_raw = Some (ascii ''old spec''), pdf_hash = Some (ascii ''0ld''),
            pdf_system_prompt = ascii ''Extract.'', show_pdf_extracted = True\<rparr>"

text \<open>A session whose stored value is the empty dict and whose stored digest is the one
  of the document \<open>pdf\<close>.\<close>

definition emptied :: session where
  "emptied = \<lparr>authenticated = True, pdf_extracted = PDict [],
              pdf_extract_raw = Some (ascii ''{}''),
              pdf_hash = Some (hexdigest (ref_digest [37, 80, 68, 70])),
              pdf_system_prompt = ascii ''Extract.'', show_pdf_extracted = True\<rparr>"

definition both :: inputs where
  "both = \<lparr>image_file = Some png, pdf_file = Some pdf\<rparr>"

definition image_only :: inputs where
  "image_only = \<lparr>image_file = Some png, pdf_file = None\<rparr>"

text \<open>Answers of the model service: a text, or a failure of the transport.\<close>

definition answer :: "string \<Rightarrow> exc + pystr option" where
  "answer txt = Inr (Some (ascii txt))"

definition unavailable :: "exc + pystr option" where
  "unavailable = Inl (OtherError (ascii ''503 UNAVAILABLE''))"

text \<open>Environments for the examples: the extraction call fails; both calls answer \<open>{}\<close>;
  the audit answers with the empty text; both calls answer with plain prose; the
  extraction answers with a small object.\<close>

definition down :: env where
  "down = ref_env unavailable (answer ''{}'')"

definition terse :: env where
  "terse = ref_env (answer ''{}'') (answer ''{}'')"

definition silent :: env where
  "silent = ref_env (answer ''{}'') (answer '''')"

definition chatty :: env where
  "chatty = ref_env (answer ''no fences here, not json'') (answer ''no fences here, not json'')"

definition verdict_false :: pystr where
  \<open>verdict_false = ascii ''{"Issue_Present": false, "Category": "Cleanliness", "Description": "x", "Resolution": "y"}''\<close>

definition verdict_true :: pystr where
  \<open>verdict_true = ascii ''{"Issue_Present": true, "Category": "Cleanliness", "Description": "x", "Resolution": "y"}''\<close>

definition helpful :: env where
  \<open>helpful = ref_env (answer ''{"a":1}'') (answer ''{"Issue_Present": false}'')\<close>

text \<open>Two more environments: the extraction call answers without a text; the audit
  answers with the given text.\<close>

definition mute :: env where
  "mute = ref_env (Inr None) (answer ''{}'')"

definition judge :: "pystr \<Rightarrow> env" where
  "judge v = ref_env (answer ''{}'') (Inr (Some v))"

section \<open>Auxiliary facts\<close>

lemma ascii_Nil: "ascii [] = []"
  by (simp add: ascii_def)

lemma ascii_Cons: "ascii (c # cs) = of_char c # ascii cs"
  by (simp add: ascii_def)

lemma hexdigest_length: "length (hexdigest w) = 64"
  by (simp add: hexdigest_def)

lemma hexdigest_nonempty [simp]: "hexdigest w \<noteq> []"
  using hexdigest_length [of w] by auto

lemma extract_calls_Nil [simp]: "extract_calls [] = []"
  by (simp add: extract_calls_def)

lemma audit_calls_Nil [simp]: "audit_calls [] = []"
  by (simp add: audit_calls_def)

lemma extract_calls_Cons [simp]:
  "extract_calls (x # xs) = (case x of ExtractCall r \<Rightarrow> [r] | _ \<Rightarrow> []) @ extract_calls xs"
  by (simp add: extract_calls_def)

lemma audit_calls_Cons [simp]:
  "audit_calls (x # xs) = (case x of AuditCall r \<Rightarrow> [r] | _ \<Rightarrow> []) @ audit_calls xs"
  by (simp add: audit_calls_def)

lemma extract_calls_append [simp]:
  "extract_calls (xs @ ys) = extract_calls xs @ extract_calls ys"
  by (simp add: extract_calls_def)

lemma audit_calls_append [simp]:
  "audit_calls (xs @ ys) = audit_calls xs @ audit_calls ys"
  by (simp add: audit_calls_def)

lemma display_no_calls [simp]:
  "extract_calls (display_result e t) = []" "audit_calls (display_result e t) = []"
  by (auto simp: display_result_def split: sum.splits pyval.splits exc.splits)

lemmas handler_defs =
  submit_def pdf_step_def read_pdf_def needs_extraction_def run_extraction_def
  extract_from_pdf_def audit_step_def call_gemini_api_def parse_or_raw_def Let_def

lemma ref_env_key [simp]: "truthy_opt (api_key (ref_env a b))"
  by (simp add: ref_env_def truthy_opt_def ascii_Cons)

lemma in_extract_calls: "ExtractCall r \<in> set tr \<longleftrightarrow> r \<in> set (extract_calls tr)"
  by (induction tr) (auto split: effect.splits)

lemma in_audit_calls: "AuditCall r \<in> set tr \<longleftrightarrow> r \<in> set (audit_calls tr)"
  by (induction tr) (auto split: effect.splits)

lemma audit_step_extract [simp]: "extract_calls (audit_step e ib m ctx) = []"
  by (simp add: audit_step_def call_gemini_api_def Let_def split: sum.splits)

lemma audit_step_audit:
  "audit_calls (audit_step e ib m ctx) =
     (if truthy_opt (api_key e) then [audit_request ib m (system_instruction_text e ctx)] else [])"
  by (simp add: audit_step_def call_gemini_api_def Let_def split: sum.splits)

lemma run_extraction_audit [simp]:
  "run_extraction e pb nh s = (s1, ctx, tr) \<Longrightarrow> audit_calls tr = []"
  by (auto simp: run_extraction_def extract_from_pdf_def Let_def split: sum.splits if_splits)

lemma run_extraction_ctx:
  "run_extraction e pb nh s = (s1, ctx, tr) \<Longrightarrow> ctx = pdf_extracted s1"
  by (auto simp: run_extraction_def extract_from_pdf_def Let_def split: sum.splits if_splits prod.splits)

lemma pdf_step_audit [simp]:
  "pdf_step e p s = (s1, ctx, tr) \<Longrightarrow> audit_calls tr = []"
  by (auto simp: pdf_step_def read_pdf_def split: option.splits sum.splits if_splits prod.splits)

lemma pdf_step_ctx:
  "pdf_step e p s = (s1, ctx, tr) \<Longrightarrow> ctx = pdf_extracted s1"
  by (auto simp: pdf_step_def read_pdf_def dest: run_extraction_ctx split: option.splits sum.splits if_splits prod.splits)


lemma run_extraction_cases:
  assumes "run_extraction e pb nh s = (s1, ctx, tr)"
  shows "(\<not> truthy_opt (api_key e) \<and> s1 = s\<lparr>pdf_extract_raw := None, pdf_extracted := PNone\<rparr> \<and>
            tr = [StErrorExtraction missing_key]) \<or>
         (truthy_opt (api_key e) \<and>
            (\<exists>err. response_text (generate_content e (extract_request pb (pdf_system_prompt s))) = Inl err \<and>
               s1 = s\<lparr>pdf_extract_raw := None, pdf_extracted := PNone\<rparr> \<and>
               tr = [ExtractCall (extract_request pb (pdf_system_prompt s)), StErrorExtraction err])) \<or>
         (truthy_opt (api_key e) \<and>
            (\<exists>t. response_text (generate_content e (extract_request pb (pdf_system_prompt s))) = Inr t \<and>
               s1 = s\<lparr>pdf_extract_raw := Some t, pdf_extracted := parse_or_raw e t,
                      pdf_hash := nh, show_pdf_extracted := True\<rparr> \<and>
               extract_calls tr = [extract_request pb (pdf_system_prompt s)]))"
proof (cases "truthy_opt (api_key e)")
  case False
  with assms show ?thesis
    by (auto simp: run_extraction_def extract_from_pdf_def)
next
  case True
  show ?thesis
  proof (cases "response_text (generate_content e (extract_request pb (pdf_system_prompt s)))")
    case (Inl err)
    with assms True show ?thesis
      by (auto simp: run_extraction_def extract_from_pdf_def Let_def)
  next
    case (Inr t)
    with assms True show ?thesis
      by (auto simp: run_extraction_def extract_from_pdf_def Let_def)
  qed
qed

lemma read_pdf_warn:
  "read_pdf e f = (pb, nh, warn) \<Longrightarrow> extract_calls warn = [] \<and> audit_calls warn = [] \<and>
     pb = (case read_result f of Inr b \<Rightarrow> Some b | Inl err \<Rightarrow> None) \<and>
     nh = (case read_result f of Inr b \<Rightarrow> Some (hexdigest (sha256 e b)) | Inl err \<Rightarrow> None)"
  by (auto simp: read_pdf_def split: sum.splits)

lemma pdf_step_cases:
  assumes "pdf_step e p s = (s1, ctx, tr)"
  shows "(p = None \<and> s1 = s \<and> tr = []) \<or>
         (\<exists>f pb nh warn. p = Some f \<and> read_pdf e f = (pb, nh, warn) \<and>
            ((\<not> needs_extraction s nh \<and> s1 = s \<and> tr = warn @ [StInfoCached]) \<or>
             (needs_extraction s nh \<and>
                (\<exists>tr'. run_extraction e pb nh s = (s1, ctx, tr') \<and> tr = warn @ tr'))))"
proof (cases p)
  case None
  with assms show ?thesis by (simp add: pdf_step_def)
next
  case (Some f)
  obtain pb nh warn where r: "read_pdf e f = (pb, nh, warn)"
    by (cases "read_pdf e f") auto
  show ?thesis
  proof (cases "needs_extraction s nh")
    case False
    with assms Some r show ?thesis by (simp add: pdf_step_def)
  next
    case True
    obtain s' c' t' where x: "run_extraction e pb nh s = (s', c', t')"
      by (cases "run_extraction e pb nh s") auto
    with assms Some r True show ?thesis by (simp add: pdf_step_def)
  qed
qed

lemma submit_cases:
  assumes "submit e inp s = (s', tr)"
  shows "(s' = s \<and> extract_calls tr = [] \<and> audit_calls tr = [] \<and>
            (image_file inp = None \<or> (\<exists>img err. image_file inp = Some img \<and> read_result img = Inl err))) \<or>
         (\<exists>img ib ctx tr1. image_file inp = Some img \<and> read_result img = Inr ib \<and>
            pdf_step e (pdf_file inp) s = (s', ctx, tr1) \<and>
            tr = tr1 @ audit_step e ib (image_mime_of img) ctx)"
proof (cases "image_file inp")
  case None
  with assms show ?thesis by (auto simp: submit_def)
next
  case (Some img)
  show ?thesis
  proof (cases "read_result img")
    case (Inl err)
    with assms Some show ?thesis by (auto simp: submit_def)
  next
    case (Inr ib)
    obtain s1 c1 t1 where x: "pdf_step e (pdf_file inp) s = (s1, c1, t1)"
      by (cases "pdf_step e (pdf_file inp) s") auto
    with assms Some Inr show ?thesis by (simp add: submit_def Let_def)
  qed
qed

lemma submit_valid:
  assumes "image_file inp = Some img" and "read_result img = Inr ib"
  shows "\<exists>s' ctx tr1. pdf_step e (pdf_file inp) s = (s', ctx, tr1) \<and>
           submit e inp s = (s', tr1 @ audit_step e ib (image_mime_of img) ctx)"
proof -
  obtain s1 c1 t1 where x: "pdf_step e (pdf_file inp) s = (s1, c1, t1)"
    by (cases "pdf_step e (pdf_file inp) s") auto
  with assms show ?thesis by (simp add: submit_def Let_def)
qed

lemma plain_text_unchanged:
  "clean_model_json (ascii ''no fences here, not json'') = ascii ''no fences here, not json''"
  by code_simp

lemma hexdigest_neq: "length x \<noteq> 64 \<Longrightarrow> x \<noteq> hexdigest w"
  using hexdigest_length [of w] by auto

section \<open>Searching for a fence\<close>

lemma fence_nonempty [simp]: "fence \<noteq> []" "fence_json \<noteq> []"
  by (simp_all add: fence_def fence_json_def ascii_Cons)

lemma fence_prefix: "prefix fence fence_json"
  by (simp add: fence_def fence_json_def ascii_def)

lemma find_prefix_mono:
  "prefix a b \<Longrightarrow> str_find s b \<noteq> None \<Longrightarrow> str_find s a \<noteq> None"
proof (induction s)
  case Nil
  then show ?case by (auto split: if_splits)
next
  case (Cons c cs)
  then show ?case
    by (cases "prefix b (c # cs)") (auto dest: prefix_order.trans)
qed

lemma find_None_rfind_None: "str_find s sep = None \<longleftrightarrow> str_rfind s sep = None"
  by (induction s) (auto split: option.splits)

lemma find_first:
  assumes "sep \<noteq> []" and "\<not> str_contains sep (pre @ butlast sep)"
  shows "str_find (pre @ sep @ suf) sep = Some (length pre)"
  using assms(2)
proof (induction pre)
  case Nil
  from assms(1) obtain c cs where "sep = c # cs" by (cases sep) auto
  then show ?case by simp
next
  case (Cons p ps)
  from Cons.prems have np: "\<not> prefix sep (p # ps @ butlast sep)"
    and rest: "\<not> str_contains sep (ps @ butlast sep)"
    by (auto simp: str_contains_def split: if_splits)
  have "\<not> prefix sep (p # ps @ sep @ suf)"
  proof
    assume a: "prefix sep (p # ps @ sep @ suf)"
    have b: "prefix (p # ps @ butlast sep) (p # ps @ sep @ suf)"
      using assms(1) by (simp add: prefix_def) (metis append_butlast_last_id append_assoc)
    have "length sep \<le> length (p # ps @ butlast sep)"
      using assms(1) by (cases sep) auto
    from prefix_length_prefix [OF a b this] np show False by simp
  qed
  with Cons.IH [OF rest] show ?case by simp
qed

lemma rfind_last:
  assumes "sep \<noteq> []" and "\<not> str_contains sep (tl sep @ post)"
  shows "str_rfind (body @ sep @ post) sep = Some (length body)"
proof (induction body)
  case Nil
  from assms(1) obtain c cs where sep: "sep = c # cs" by (cases sep) auto
  with assms(2) have "str_rfind (cs @ post) sep = None"
    by (simp add: str_contains_def find_None_rfind_None)
  with sep show ?case by simp
next
  case (Cons b bs)
  then show ?case by simp
qed

lemma rfind_none: "\<not> str_contains sep s \<Longrightarrow> str_rfind s sep = None"
  by (simp add: str_contains_def find_None_rfind_None)

lemma try_fence_closed:
  assumes "opener \<noteq> []"
    and "\<not> str_contains opener (pre @ butlast opener)"
    and "\<not> str_contains fence (tl fence @ post)"
  shows "try_fence (pre @ opener @ body @ fence @ post) opener = Some (strip body)"
proof -
  have f: "str_find (pre @ opener @ body @ fence @ post) opener = Some (length pre)"
    using find_first [OF assms(1,2)] by simp
  have r: "str_rfind (body @ fence @ post) fence = Some (length body)"
    using rfind_last [OF fence_nonempty(1) assms(3)] by simp
  show ?thesis
    using assms(1) f r
    by (simp add: try_fence_def str_contains_def fenced_part_def split1_def rsplit1_def
        index_def and_then_def)
qed

lemma try_fence_open:
  assumes "opener \<noteq> []"
    and "\<not> str_contains opener (pre @ butlast opener)"
    and "\<not> str_contains fence rest"
  shows "try_fence (pre @ opener @ rest) opener = Some (strip rest)"
proof -
  have f: "str_find (pre @ opener @ rest) opener = Some (length pre)"
    using find_first [OF assms(1,2)] by simp
  show ?thesis
    using assms(1) f rfind_none [OF assms(3)]
    by (simp add: try_fence_def str_contains_def fenced_part_def split1_def rsplit1_def
        index_def and_then_def)
qed

lemma try_fence_absent: "\<not> str_contains opener text \<Longrightarrow> try_fence text opener = None"
  by (simp add: try_fence_def)

lemma no_fence_no_json: "\<not> str_contains fence text \<Longrightarrow> \<not> str_contains fence_json text"
  using find_prefix_mono [OF fence_prefix, of "text"]
  by (cases "str_find text fence_json") (auto simp: str_contains_def)

lemma fenced_example:
  \<open>clean_model_json (ascii ''```json\<newline>{"a":1}\<newline>```'') = ascii ''{"a":1}''\<close>
  by code_simp

section \<open>Runs of the reference environment\<close>

lemmas eval_defs = submit_def pdf_step_def read_pdf_def needs_extraction_def run_extraction_def
  extract_from_pdf_def audit_step_def call_gemini_api_def parse_or_raw_def Let_def
  truthy_opt_def ref_env_def scripted_def extract_request_def audit_request_def response_text_def
  system_instruction_text_def image_mime_of_def png_def pdf_def both_def image_only_def
  answer_def unavailable_def ascii_Cons ascii_Nil

lemma strip_braces: "strip (ascii ''{}'') = ascii ''{}''"
  by code_simp

lemma strip_empty: "strip [] = []"
  by (simp add: strip_def)

lemma loads_braces: "ref_loads (clean_model_json (ascii ''{}'')) = Inr (PDict [])"
  by code_simp

lemma loads_empty: "ref_loads (clean_model_json []) = Inl JSONDecodeError"
  by code_simp

lemma strip_plain: "strip (ascii ''no fences here, not json'') = ascii ''no fences here, not json''"
  by code_simp

lemma loads_plain: "ref_loads (ascii ''no fences here, not json'') = Inl JSONDecodeError"
  by code_simp

lemma strip_a1: \<open>strip (ascii ''{"a":1}'') = ascii ''{"a":1}''\<close>
  by code_simp

lemma loads_a1: \<open>ref_loads (clean_model_json (ascii ''{"a":1}'')) = Inr (PDict [(ascii ''a'', PInt 1)])\<close>
  by code_simp

lemma loads_verdict_false:
  "ref_loads (clean_model_json verdict_false) =
     Inr (PDict [(ascii ''Issue_Present'', PBool False), (ascii ''Category'', PStr (ascii ''Cleanliness'')),
                 (ascii ''Description'', PStr (ascii ''x'')), (ascii ''Resolution'', PStr (ascii ''y''))])"
  by code_simp

lemma loads_verdict_true:
  "ref_loads (clean_model_json verdict_true) =
     Inr (PDict [(ascii ''Issue_Present'', PBool True), (ascii ''Category'', PStr (ascii ''Cleanliness'')),
                 (ascii ''Description'', PStr (ascii ''x'')), (ascii ''Resolution'', PStr (ascii ''y''))])"
  by code_simp

lemma loads_category: \<open>ref_loads (clean_model_json (ascii ''{"Category": "Condition"}'')) =
     Inr (PDict [(ascii ''Category'', PStr (ascii ''Condition''))])\<close>
  by code_simp

lemma stale_run:
  "submit down both stale =
     (stale\<lparr>pdf_extract_raw := None, pdf_extracted := PNone\<rparr>,
      [ExtractCall (extract_request (Some [37, 80, 68, 70]) (ascii ''Extract.'')),
       StErrorExtraction (OtherError (ascii ''503 UNAVAILABLE'')),
       AuditCall (audit_request [137, 80, 78, 71] (ascii ''image/png'') base_system),
       StHeadingResult,
       StResultCard SuccessCard (PStr (ascii ''Unknown'')) (PStr (ascii ''No description provided.''))
         (PStr (ascii ''No Soultion provided.''))])"
  using strip_braces loads_braces
  by (simp add: down_def eval_defs stale_def hexdigest_neq display_result_def dict_get_def)

lemma terse_first_run:
  "fst (submit terse both fresh) = emptied \<and>
   extract_calls (snd (submit terse both fresh)) =
     [extract_request (Some [37, 80, 68, 70]) (ascii ''Extract.'')]"
  using strip_braces loads_braces
  by (simp add: terse_def eval_defs fresh_def emptied_def display_result_def dict_get_def)

lemma terse_second_run:
  "fst (submit terse both emptied) = emptied \<and>
   extract_calls (snd (submit terse both emptied)) =
     [extract_request (Some [37, 80, 68, 70]) (ascii ''Extract.'')]"
  using strip_braces loads_braces
  by (simp add: terse_def eval_defs emptied_def display_result_def dict_get_def)

lemma silent_run:
  "submit silent image_only fresh =
     (fresh, [AuditCall (audit_request [137, 80, 78, 71] (ascii ''image/png'') base_system)])"
  using strip_empty
  by (simp add: silent_def eval_defs fresh_def)

lemma chatty_run:
  "submit chatty both fresh =
     (fresh\<lparr>pdf_extract_raw := Some (ascii ''no fences here, not json''),
             pdf_extracted := PStr (ascii ''no fences here, not json''),
             pdf_hash := Some (hexdigest (ref_digest [37, 80, 68, 70])),
             show_pdf_extracted := True\<rparr>,
      [ExtractCall (extract_request (Some [37, 80, 68, 70]) (ascii ''Extract.'')),
       StSuccessExtraction, StHeadingExtracted, StMarkdown (ascii ''no fences here, not json''),
       AuditCall (audit_request [137, 80, 78, 71] (ascii ''image/png'')
          (base_system @ context_header @ ascii ''no fences here, not json'')),
       StHeadingResult, StUnparsedCard (ascii ''no fences here, not json'')])"
  using strip_plain loads_plain plain_text_unchanged
  by (simp add: chatty_def eval_defs fresh_def display_result_def to_str_def)

lemma helpful_first_run:
  "pdf_extracted (fst (submit helpful both fresh)) = PDict [(ascii ''a'', PInt 1)] \<and>
   extract_calls (snd (submit helpful both fresh)) =
     [extract_request (Some [37, 80, 68, 70]) (ascii ''Extract.'')]"
  using strip_a1 loads_a1
  by (simp add: helpful_def submit_def pdf_step_def read_pdf_def needs_extraction_def run_extraction_def
      extract_from_pdf_def parse_or_raw_def Let_def
      truthy_opt_def ref_env_def scripted_def extract_request_def response_text_def
      png_def pdf_def both_def answer_def ascii_Cons ascii_Nil fresh_def)

lemma loads_prose: "ref_loads (clean_model_json (ascii ''Looks fine.'')) = Inl JSONDecodeError"
  by code_simp

lemma dumps_empty_dict: "ref_dumps (PDict []) = ascii ''{}''"
  by (simp add: ascii_def)

lemma loads_a1_plain: \<open>ref_loads (ascii ''{"a":1}'') = Inr (PDict [(ascii ''a'', PInt 1)])\<close>
  by code_simp

lemma audit_tail:
  assumes "submit e inp s = (s', tr)"
    and "AuditCall req \<in> set tr"
    and "response_text (generate_content e req) = Inr t"
  shows "\<exists>tr0. tr = tr0 @ AuditCall req # (if t = [] then [] else display_result e t)"
proof -
  from assms(2) have req: "req \<in> set (audit_calls tr)"
    by (simp add: in_audit_calls)
  from submit_cases [OF assms(1)] req
  obtain img ib ctx tr1 where step: "pdf_step e (pdf_file inp) s = (s', ctx, tr1)"
    and tr: "tr = tr1 @ audit_step e ib (image_mime_of img) ctx"
    by auto
  from req tr pdf_step_audit [OF step]
  have key: "truthy_opt (api_key e)"
    and r: "req = audit_request ib (image_mime_of img) (system_instruction_text e ctx)"
    by (auto simp: audit_step_audit split: if_splits)
  from assms(3) key r
  have "audit_step e ib (image_mime_of img) ctx =
          AuditCall req # (if t = [] then [] else display_result e t)"
    by (simp add: audit_step_def call_gemini_api_def Let_def)
  with tr show ?thesis by blast
qed

lemma image_only_trace:
  "snd (submit e image_only s) =
     audit_step e [137, 80, 78, 71] (ascii ''image/png'') (pdf_extracted s)"
  by (simp add: submit_def image_only_def png_def pdf_step_def image_mime_of_def Let_def ascii_Cons)

lemma judge_key [simp]: "truthy_opt (api_key (judge v))"
  by (simp add: judge_def)

lemma judge_call:
  "AuditCall (audit_request [137, 80, 78, 71] (ascii ''image/png'') base_system)
     \<in> set (snd (submit (judge v) image_only fresh))"
  by (simp add: in_audit_calls image_only_trace audit_step_audit system_instruction_text_def fresh_def)

lemma judge_answer:
  "response_text (generate_content (judge v)
     (audit_request [137, 80, 78, 71] (ascii ''image/png'') base_system)) = Inr (strip v)"
  by (simp add: judge_def ref_env_def scripted_def audit_request_def response_text_def
      ascii_Cons ascii_Nil)

lemma judge_loads: "json_loads (judge v) = ref_loads"
  by (simp add: judge_def ref_env_def)

lemma strip_verdict_false: "strip verdict_false = verdict_false"
  by code_simp

lemma strip_verdict_true: "strip verdict_true = verdict_true"
  by code_simp

lemma strip_prose: "strip (ascii ''Looks fine.'') = ascii ''Looks fine.''"
  by code_simp

lemma strip_blank: "strip (ascii '' '') = []"
  by code_simp

lemma blank_run:
  "submit (judge (ascii '' '')) image_only fresh =
     (fresh, [AuditCall (audit_request [137, 80, 78, 71] (ascii ''image/png'') base_system)])"
  using strip_blank
  by (simp add: judge_def eval_defs fresh_def)

lemma mute_run:
  "submit mute both stale =
     (stale\<lparr>pdf_extract_raw := None, pdf_extracted := PNone\<rparr>,
      [ExtractCall (extract_request (Some [37, 80, 68, 70]) (ascii ''Extract.'')),
       StErrorExtraction AttributeError,
       AuditCall (audit_request [137, 80, 78, 71] (ascii ''image/png'') base_system),
       StHeadingResult,
       StResultCard SuccessCard (PStr (ascii ''Unknown'')) (PStr (ascii ''No description provided.''))
         (PStr (ascii ''No Soultion provided.''))])"
  using strip_braces loads_braces
  by (simp add: mute_def eval_defs stale_def hexdigest_neq display_result_def dict_get_def)

section \<open>Validation of the image\<close>

text \<open>
  Claim C7.  A Submit with no image attached only reports the validation error: the
  session comes back as it was, and no call to the model is made, neither for extraction
  nor for the audit.
\<close>

theorem submit_without_image:
  assumes "image_file inp = None"
  shows "submit e inp s = (s, [StErrorNoImage]) \<and>
         extract_calls (snd (submit e inp s)) = [] \<and>
         audit_calls (snd (submit e inp s)) = []"
  using assms by (simp add: submit_def)

theorem submit_without_image_witness:
  "image_file \<lparr>image_file = None, pdf_file = Some pdf\<rparr> = None \<and>
   submit (ref_env (Inr (Some (ascii ''{}''))) (Inr (Some (ascii ''{}''))))
     \<lparr>image_file = None, pdf_file = Some pdf\<rparr> fresh = (fresh, [StErrorNoImage])"
proof -
  have h: "image_file \<lparr>image_file = None, pdf_file = Some pdf\<rparr> = None"
    by simp
  from submit_without_image [OF h] show ?thesis
    using h by blast
qed

section \<open>A changed document\<close>

text \<open>
  Claim C4, as amended.  In a Submit that passes the image validation, with the API key
  configured, a readable document whose digest differs from the stored one leads to
  exactly one extraction call, made with the bytes of that document.  When the call
  answers with a text, the raw text, the extracted value and the digest of the session
  are those of the new document alone: the parsed answer (or the text itself when it
  does not parse) and the new digest, none of them computed from the old values.
\<close>


theorem changed_document_extracts_once:
  assumes "image_file inp = Some img" and "read_result img = Inr ib"
    and "pdf_file inp = Some f" and "read_result f = Inr b"
    and "pdf_hash s \<noteq> Some (hexdigest (sha256 e b))"
    and "truthy_opt (api_key e)"
    and "submit e inp s = (s', tr)"
  shows "extract_calls tr = [extract_request (Some b) (pdf_system_prompt s)] \<and>
         (\<forall>t. generate_content e (extract_request (Some b) (pdf_system_prompt s)) = Inr (Some t) \<longrightarrow>
            pdf_extract_raw s' = Some (strip t) \<and>
            pdf_extracted s' =
              (case json_loads e (clean_model_json (strip t)) of
                 Inr v \<Rightarrow> v
               | Inl err \<Rightarrow> PStr (strip t)) \<and>
            pdf_hash s' = Some (hexdigest (sha256 e b)))"
  using assms
  by (auto simp: handler_defs truthy_opt_def response_text_def
      split: sum.splits option.splits prod.splits if_splits)

lemma png_read: "read_result png = Inr [137, 80, 78, 71]"
  by (simp add: png_def)

lemma pdf_read: "read_result pdf = Inr [37, 80, 68, 70]"
  by (simp add: pdf_def)

theorem changed_document_extracts_once_witness:
  \<open>image_file both = Some png \<and> read_result png = Inr [137, 80, 78, 71] \<and>
   pdf_file both = Some pdf \<and> read_result pdf = Inr [37, 80, 68, 70] \<and>
   pdf_extracted stale = PStr (ascii ''old spec'') \<and>
   pdf_hash stale = Some (ascii ''0ld'') \<and>
   pdf_hash stale \<noteq> Some (hexdigest (sha256 helpful [37, 80, 68, 70])) \<and>
   truthy_opt (api_key helpful) \<and>
   submit helpful both stale = (fst (submit helpful both stale), snd (submit helpful both stale)) \<and>
   extract_calls (snd (submit helpful both stale)) =
     [extract_request (Some [37, 80, 68, 70]) (pdf_system_prompt stale)] \<and>
   generate_content helpful (extract_request (Some [37, 80, 68, 70]) (pdf_system_prompt stale)) =
     Inr (Some (ascii ''{"a":1}'')) \<and>
   pdf_extract_raw (fst (submit helpful both stale)) = Some (ascii ''{"a":1}'') \<and>
   pdf_extracted (fst (submit helpful both stale)) = PDict [(ascii ''a'', PInt 1)] \<and>
   pdf_hash (fst (submit helpful both stale)) = Some (hexdigest (sha256 helpful [37, 80, 68, 70]))\<close>
proof -
  have h1: "image_file both = Some png" by (simp add: both_def)
  have h3: "pdf_file both = Some pdf" by (simp add: both_def)
  have o1: "pdf_extracted stale = PStr (ascii ''old spec'')" by (simp add: stale_def)
  have o2: "pdf_hash stale = Some (ascii ''0ld'')" by (simp add: stale_def)
  have h5: "pdf_hash stale \<noteq> Some (hexdigest (sha256 helpful [37, 80, 68, 70]))"
    by (simp add: stale_def hexdigest_neq ascii_Cons ascii_Nil)
  have h6: "truthy_opt (api_key helpful)" by (simp add: helpful_def)
  have h7: "submit helpful both stale = (fst (submit helpful both stale), snd (submit helpful both stale))"
    by simp
  have g: \<open>generate_content helpful (extract_request (Some [37, 80, 68, 70]) (pdf_system_prompt stale)) =
     Inr (Some (ascii ''{"a":1}''))\<close>
    by (simp add: helpful_def ref_env_def scripted_def extract_request_def answer_def)
  have l: "json_loads helpful = ref_loads"
    by (simp add: helpful_def ref_env_def)
  note T = changed_document_extracts_once [OF h1 png_read h3 pdf_read h5 h6 h7]
  from T have c1: "extract_calls (snd (submit helpful both stale)) =
     [extract_request (Some [37, 80, 68, 70]) (pdf_system_prompt stale)]"
    by blast
  from T g have c2: \<open>pdf_extract_raw (fst (submit helpful both stale)) = Some (strip (ascii ''{"a":1}'')) \<and>
     pdf_extracted (fst (submit helpful both stale)) =
       (case json_loads helpful (clean_model_json (strip (ascii ''{"a":1}''))) of
          Inr v \<Rightarrow> v | Inl err \<Rightarrow> PStr (strip (ascii ''{"a":1}''))) \<and>
     pdf_hash (fst (submit helpful both stale)) = Some (hexdigest (sha256 helpful [37, 80, 68, 70]))\<close>
    by blast
  then have c3: \<open>pdf_extract_raw (fst (submit helpful both stale)) = Some (ascii ''{"a":1}'') \<and>
     pdf_extracted (fst (submit helpful both stale)) = PDict [(ascii ''a'', PInt 1)] \<and>
     pdf_hash (fst (submit helpful both stale)) = Some (hexdigest (sha256 helpful [37, 80, 68, 70]))\<close>
    by (simp add: strip_a1 l loads_a1)
  from h1 png_read h3 pdf_read o1 o2 h5 h6 h7 c1 g c3 show ?thesis by blast
qed

text \<open>
  Claim C4 as stated fails when the extraction call does not answer.  In the run below
  the session holds an extraction and a digest of an earlier document, the attached
  document is readable and its digest differs from the stored one, and the one
  extraction call comes back without a text.  The stored extraction is then cleared, not
  replaced by a new one, and the stored digest is still the old one.
\<close>

theorem failed_call_replaces_nothing:
  "image_file both = Some png \<and> read_result png = Inr [137, 80, 78, 71] \<and>
   pdf_file both = Some pdf \<and> read_result pdf = Inr [37, 80, 68, 70] \<and>
   pdf_hash stale = Some (ascii ''0ld'') \<and>
   pdf_hash stale \<noteq> Some (hexdigest (sha256 mute [37, 80, 68, 70])) \<and>
   truthy_opt (api_key mute) \<and>
   extract_calls (snd (submit mute both stale)) =
     [extract_request (Some [37, 80, 68, 70]) (ascii ''Extract.'')] \<and>
   generate_content mute (extract_request (Some [37, 80, 68, 70]) (ascii ''Extract.'')) = Inr None \<and>
   pdf_extracted (fst (submit mute both stale)) = PNone \<and>
   pdf_hash (fst (submit mute both stale)) = Some (ascii ''0ld'') \<and>
   pdf_hash (fst (submit mute both stale)) \<noteq> Some (hexdigest (sha256 mute [37, 80, 68, 70]))"
proof -
  have a: "image_file both = Some png" "pdf_file both = Some pdf"
    by (simp_all add: both_def)
  have b: "pdf_hash stale = Some (ascii ''0ld'')"
    by (simp add: stale_def)
  have c: "pdf_hash stale \<noteq> Some (hexdigest (sha256 mute [37, 80, 68, 70]))"
    by (simp add: stale_def hexdigest_neq ascii_Cons ascii_Nil)
  have d: "truthy_opt (api_key mute)"
    by (simp add: mute_def)
  have e: "extract_calls (snd (submit mute both stale)) =
     [extract_request (Some [37, 80, 68, 70]) (ascii ''Extract.'')]"
    by (simp add: mute_run)
  have f: "generate_content mute (extract_request (Some [37, 80, 68, 70]) (ascii ''Extract.'')) = Inr None"
    by (simp add: mute_def ref_env_def scripted_def extract_request_def)
  have g: "pdf_extracted (fst (submit mute both stale)) = PNone"
    by (simp add: mute_run)
  have h: "pdf_hash (fst (submit mute both stale)) = Some (ascii ''0ld'')"
    by (simp add: mute_run b)
  from c b h have i: "pdf_hash (fst (submit mute both stale)) \<noteq> Some (hexdigest (sha256 mute [37, 80, 68, 70]))"
    by simp
  from a png_read pdf_read b c d e f g h i show ?thesis by blast
qed


section \<open>A failing extraction\<close>

text \<open>
  Claim C1, as amended.  In a Submit in which the extraction call is made and fails, the
  stored extraction and its raw text are cleared, the stored digest is left as it was, and
  the audit call that follows, the only one of the run, carries the rubric alone as its
  system instruction.
\<close>

theorem failed_extraction_clears_spec:
  assumes "submit e inp s = (s', tr)"
    and "ExtractCall req \<in> set tr"
    and "response_text (generate_content e req) = Inl err"
  shows "pdf_extracted s' = PNone \<and> pdf_extract_raw s' = None \<and> pdf_hash s' = pdf_hash s \<and>
         (\<exists>ib m. audit_calls tr = [audit_request ib m base_system])"
proof -
  from assms(2) have req: "req \<in> set (extract_calls tr)"
    by (simp add: in_extract_calls)
  from submit_cases [OF assms(1)] req
  obtain img ib ctx tr1 where img: "image_file inp = Some img" "read_result img = Inr ib"
    and step: "pdf_step e (pdf_file inp) s = (s', ctx, tr1)"
    and tr: "tr = tr1 @ audit_step e ib (image_mime_of img) ctx"
    by auto
  from req tr have req1: "req \<in> set (extract_calls tr1)" by simp
  from pdf_step_cases [OF step] req1
  obtain f pb nh warn tr' where f: "pdf_file inp = Some f" "read_pdf e f = (pb, nh, warn)"
    and run: "run_extraction e pb nh s = (s', ctx, tr')" and tr1: "tr1 = warn @ tr'"
    by (auto dest: read_pdf_warn)
  from read_pdf_warn [OF f(2)] req1 tr1 have req2: "req \<in> set (extract_calls tr')" by simp
  from run_extraction_cases [OF run] req2 assms(3)
  have key: "truthy_opt (api_key e)"
    and s': "s' = s\<lparr>pdf_extract_raw := None, pdf_extracted := PNone\<rparr>"
    by auto
  from run_extraction_ctx [OF run] s' have ctx: "ctx = PNone" by simp
  have "audit_calls tr = [audit_request ib (image_mime_of img) base_system]"
    using tr pdf_step_audit [OF step] key ctx
    by (simp add: audit_step_audit system_instruction_text_def)
  with s' show ?thesis by auto
qed

theorem failed_extraction_clears_spec_witness:
  "submit down both stale = (fst (submit down both stale), snd (submit down both stale)) \<and>
   ExtractCall (extract_request (Some [37, 80, 68, 70]) (ascii ''Extract.''))
     \<in> set (snd (submit down both stale)) \<and>
   response_text (generate_content down (extract_request (Some [37, 80, 68, 70]) (ascii ''Extract.'')))
     = Inl (OtherError (ascii ''503 UNAVAILABLE'')) \<and>
   pdf_extracted (fst (submit down both stale)) = PNone \<and>
   pdf_extract_raw (fst (submit down both stale)) = None \<and>
   pdf_hash (fst (submit down both stale)) = pdf_hash stale \<and>
   (\<exists>ib m. audit_calls (snd (submit down both stale)) = [audit_request ib m base_system])"
proof -
  have h1: "submit down both stale = (fst (submit down both stale), snd (submit down both stale))"
    by simp
  have h2: "ExtractCall (extract_request (Some [37, 80, 68, 70]) (ascii ''Extract.''))
     \<in> set (snd (submit down both stale))"
    by (simp add: stale_run)
  have h3: "response_text (generate_content down (extract_request (Some [37, 80, 68, 70]) (ascii ''Extract.'')))
     = Inl (OtherError (ascii ''503 UNAVAILABLE''))"
    by (simp add: down_def ref_env_def scripted_def extract_request_def unavailable_def response_text_def)
  from failed_extraction_clears_spec [OF h1 h2 h3] show ?thesis
    using h1 h2 h3 by blast
qed

text \<open>
  Claim C1 as stated fails on the digest.  In the run below the extraction call is made
  and the service fails; the digest that the session held before the run is still there
  after it.
\<close>

theorem failed_extraction_keeps_digest:
  "ExtractCall (extract_request (Some [37, 80, 68, 70]) (ascii ''Extract.''))
     \<in> set (snd (submit down both stale)) \<and>
   generate_content down (extract_request (Some [37, 80, 68, 70]) (ascii ''Extract.'')) = unavailable \<and>
   pdf_hash stale = Some (ascii ''0ld'') \<and>
   pdf_hash (fst (submit down both stale)) = Some (ascii ''0ld'') \<and>
   pdf_hash (fst (submit down both stale)) \<noteq> None"
proof -
  have a: "ExtractCall (extract_request (Some [37, 80, 68, 70]) (ascii ''Extract.''))
     \<in> set (snd (submit down both stale))"
    by (simp add: stale_run)
  have b: "generate_content down (extract_request (Some [37, 80, 68, 70]) (ascii ''Extract.'')) = unavailable"
    by (simp add: down_def ref_env_def scripted_def extract_request_def)
  have c: "pdf_hash stale = Some (ascii ''0ld'')"
    by (simp add: stale_def)
  have d: "pdf_hash (fst (submit down both stale)) = Some (ascii ''0ld'')"
    by (simp add: stale_run c)
  from a b c d show ?thesis by simp
qed

section \<open>An unchanged document\<close>

text \<open>
  Claim C2, as amended.  Take two Submits in a row with the same document attached, the
  first of which called the extractor and left a stored value that Python takes as true.
  Then the second Submit makes no extraction call and leaves the whole session as the
  first one left it, and any audit call of the second Submit is built from that stored
  value.
\<close>

theorem unchanged_document_reuses_spec:
  assumes "submit e1 inp1 s0 = (s1, tr1)" and "submit e2 inp2 s1 = (s2, tr2)"
    and "sha256 e2 = sha256 e1"
    and "pdf_file inp1 = Some f" and "pdf_file inp2 = Some f"
    and "extract_calls tr1 \<noteq> []"
    and "py_truthy (pdf_extracted s1)"
  shows "extract_calls tr2 = [] \<and> s2 = s1 \<and>
         (\<forall>r \<in> set (audit_calls tr2).
            system_instruction r = system_instruction_text e2 (pdf_extracted s1))"
proof -
  obtain pb nh warn where r1: "read_pdf e1 f = (pb, nh, warn)"
    by (cases "read_pdf e1 f") auto
  from r1 assms(3) have r2: "read_pdf e2 f = (pb, nh, warn)"
    by (auto simp: read_pdf_def split: sum.splits)
  from submit_cases [OF assms(1)] assms(6)
  obtain ctx t1 where step: "pdf_step e1 (pdf_file inp1) s0 = (s1, ctx, t1)"
    and "extract_calls t1 \<noteq> []"
    by auto
  with pdf_step_cases [OF step] assms(4) r1 read_pdf_warn [OF r1]
  obtain tr' where run: "run_extraction e1 pb nh s0 = (s1, ctx, tr')"
    by auto
  from run_extraction_cases [OF run] assms(7) \<open>extract_calls t1 \<noteq> []\<close>
  have hash: "pdf_hash s1 = nh"
    by auto
  with assms(7) have no: "\<not> needs_extraction s1 nh"
    by (simp add: needs_extraction_def)
  from submit_cases [OF assms(2)] show ?thesis
  proof
    assume "s2 = s1 \<and> extract_calls tr2 = [] \<and> audit_calls tr2 = [] \<and>
      (image_file inp2 = None \<or> (\<exists>img err. image_file inp2 = Some img \<and> read_result img = Inl err))"
    then show ?thesis by simp
  next
    assume "\<exists>img ib ctx tr1. image_file inp2 = Some img \<and> read_result img = Inr ib \<and>
      pdf_step e2 (pdf_file inp2) s1 = (s2, ctx, tr1) \<and>
      tr2 = tr1 @ audit_step e2 ib (image_mime_of img) ctx"
    then obtain img ib c2 t2 where step2: "pdf_step e2 (pdf_file inp2) s1 = (s2, c2, t2)"
      and tr2: "tr2 = t2 @ audit_step e2 ib (image_mime_of img) c2"
      by auto
    from pdf_step_cases [OF step2] assms(5) r2 no
    have s2: "s2 = s1" and t2: "t2 = warn @ [StInfoCached]"
      by auto
    from pdf_step_ctx [OF step2] s2 have c2: "c2 = pdf_extracted s1" by simp
    from tr2 t2 c2 s2 read_pdf_warn [OF r2] show ?thesis
      by (auto simp: audit_step_audit audit_request_def split: if_splits)
  qed
qed

theorem unchanged_document_reuses_spec_witness:
  "submit helpful both fresh = (fst (submit helpful both fresh), snd (submit helpful both fresh)) \<and>
   submit helpful both (fst (submit helpful both fresh)) =
     (fst (submit helpful both (fst (submit helpful both fresh))),
      snd (submit helpful both (fst (submit helpful both fresh)))) \<and>
   sha256 helpful = sha256 helpful \<and>
   pdf_file both = Some pdf \<and>
   extract_calls (snd (submit helpful both fresh)) \<noteq> [] \<and>
   py_truthy (pdf_extracted (fst (submit helpful both fresh))) \<and>
   extract_calls (snd (submit helpful both (fst (submit helpful both fresh)))) = [] \<and>
   fst (submit helpful both (fst (submit helpful both fresh))) = fst (submit helpful both fresh)"
proof -
  let ?s1 = "fst (submit helpful both fresh)"
  have h1: "submit helpful both fresh = (?s1, snd (submit helpful both fresh))"
    by simp
  have h2: "submit helpful both ?s1 = (fst (submit helpful both ?s1), snd (submit helpful both ?s1))"
    by simp
  have h3: "sha256 helpful = sha256 helpful"
    by simp
  have h4: "pdf_file both = Some pdf"
    by (simp add: both_def)
  have h6: "extract_calls (snd (submit helpful both fresh)) \<noteq> []"
    by (simp add: helpful_first_run)
  have h7: "py_truthy (pdf_extracted ?s1)"
    by (simp add: helpful_first_run)
  from unchanged_document_reuses_spec [OF h1 h2 h3 h4 h4 h6 h7] h1 h2 h3 h4 h6 h7
  show ?thesis by blast
qed

text \<open>
  Claim C2 as stated fails when the first extraction leaves a value that Python takes as
  false.  In the two runs below the same document is attached, the first run extracts and
  stores the empty dict with the digest of the document, and the second run calls the
  extractor again.
\<close>

theorem empty_extraction_extracts_again:
  "extract_calls (snd (submit terse both fresh)) =
     [extract_request (Some [37, 80, 68, 70]) (ascii ''Extract.'')] \<and>
   fst (submit terse both fresh) = emptied \<and>
   pdf_hash emptied = Some (hexdigest (sha256 terse [37, 80, 68, 70])) \<and>
   extract_calls (snd (submit terse both (fst (submit terse both fresh)))) =
     [extract_request (Some [37, 80, 68, 70]) (ascii ''Extract.'')]"
proof -
  have a: "pdf_hash emptied = Some (hexdigest (sha256 terse [37, 80, 68, 70]))"
    by (simp add: emptied_def terse_def ref_env_def)
  from terse_first_run terse_second_run a show ?thesis by simp
qed

section \<open>Answers that are not JSON\<close>

text \<open>
  Claim C5, as amended.  When the answer to the extraction call does not parse after
  cleaning, whatever the error, the answer itself is stored as the extraction and as the
  raw text, and the Submit goes on to its audit call.  When the answer to the audit call
  is not empty and the parser rejects its cleaned form with \<open>JSONDecodeError\<close>, the run
  ends with the result heading and the card for unparsed output, which carries the
  answer unchanged.  For the
  text \<open>no fences here, not json\<close>, cleaning returns the text itself, so with a parser
  that rejects it the stored value and the card hold exactly that text.
\<close>

theorem parse_failure_is_soft:
  assumes "submit e inp s = (s', tr)"
  shows "(\<forall>req t err. ExtractCall req \<in> set tr \<and>
            response_text (generate_content e req) = Inr t \<and>
            json_loads e (clean_model_json t) = Inl err \<longrightarrow>
              pdf_extracted s' = PStr t \<and> pdf_extract_raw s' = Some t \<and>
              (\<exists>r. audit_calls tr = [r])) \<and>
         (\<forall>req t. AuditCall req \<in> set tr \<and>
            response_text (generate_content e req) = Inr t \<and> t \<noteq> [] \<and>
            json_loads e (clean_model_json t) = Inl JSONDecodeError \<longrightarrow>
              (\<exists>tr0. tr = tr0 @ [AuditCall req, StHeadingResult, StUnparsedCard t])) \<and>
         (json_loads e (ascii ''no fences here, not json'') = Inl JSONDecodeError \<longrightarrow>
            parse_or_raw e (ascii ''no fences here, not json'') =
              PStr (ascii ''no fences here, not json'') \<and>
            display_result e (ascii ''no fences here, not json'') =
              [StHeadingResult, StUnparsedCard (ascii ''no fences here, not json'')])"
proof (intro conjI allI impI)
  fix req t err
  assume a: "ExtractCall req \<in> set tr \<and> response_text (generate_content e req) = Inr t \<and>
             json_loads e (clean_model_json t) = Inl err"
  then have req: "req \<in> set (extract_calls tr)" by (simp add: in_extract_calls)
  from submit_cases [OF assms] req
  obtain img ib ctx tr1 where step: "pdf_step e (pdf_file inp) s = (s', ctx, tr1)"
    and tr: "tr = tr1 @ audit_step e ib (image_mime_of img) ctx"
    by auto
  from req tr have req1: "req \<in> set (extract_calls tr1)" by simp
  from pdf_step_cases [OF step] req1
  obtain pb nh warn tr' where run: "run_extraction e pb nh s = (s', ctx, tr')"
    and tr1: "tr1 = warn @ tr'" and "extract_calls warn = []"
    by (auto dest: read_pdf_warn)
  with req1 have req2: "req \<in> set (extract_calls tr')" by simp
  from run_extraction_cases [OF run] req2 a
  have key: "truthy_opt (api_key e)"
    and s': "s' = s\<lparr>pdf_extract_raw := Some t, pdf_extracted := parse_or_raw e t,
                     pdf_hash := nh, show_pdf_extracted := True\<rparr>"
    by auto
  from a have "parse_or_raw e t = PStr t" by (simp add: parse_or_raw_def)
  with s' have "pdf_extracted s' = PStr t" "pdf_extract_raw s' = Some t" by simp_all
  moreover have "\<exists>r. audit_calls tr = [r]"
    using tr pdf_step_audit [OF step] key by (simp add: audit_step_audit)
  ultimately show "pdf_extracted s' = PStr t" "pdf_extract_raw s' = Some t" "\<exists>r. audit_calls tr = [r]"
    by blast+
next
  fix req t
  assume a: "AuditCall req \<in> set tr \<and> response_text (generate_content e req) = Inr t \<and> t \<noteq> [] \<and>
             json_loads e (clean_model_json t) = Inl JSONDecodeError"
  then have req: "req \<in> set (audit_calls tr)" by (simp add: in_audit_calls)
  from submit_cases [OF assms] req
  obtain img ib ctx tr1 where step: "pdf_step e (pdf_file inp) s = (s', ctx, tr1)"
    and tr: "tr = tr1 @ audit_step e ib (image_mime_of img) ctx"
    by auto
  from req tr pdf_step_audit [OF step]
  have key: "truthy_opt (api_key e)"
    and r: "req = audit_request ib (image_mime_of img) (system_instruction_text e ctx)"
    by (auto simp: audit_step_audit split: if_splits)
  from a have "display_result e t = [StHeadingResult, StUnparsedCard t]"
    by (simp add: display_result_def)
  with a key r have "audit_step e ib (image_mime_of img) ctx = [AuditCall req, StHeadingResult, StUnparsedCard t]"
    by (simp add: audit_step_def call_gemini_api_def Let_def)
  with tr show "\<exists>tr0. tr = tr0 @ [AuditCall req, StHeadingResult, StUnparsedCard t]"
    by blast
next
  assume "json_loads e (ascii ''no fences here, not json'') = Inl JSONDecodeError"
  then show "parse_or_raw e (ascii ''no fences here, not json'') =
              PStr (ascii ''no fences here, not json'')"
    and "display_result e (ascii ''no fences here, not json'') =
              [StHeadingResult, StUnparsedCard (ascii ''no fences here, not json'')]"
    by (simp_all add: parse_or_raw_def display_result_def plain_text_unchanged)
qed

theorem parse_failure_is_soft_witness:
  "submit chatty both fresh = (fst (submit chatty both fresh), snd (submit chatty both fresh)) \<and>
   ExtractCall (extract_request (Some [37, 80, 68, 70]) (ascii ''Extract.''))
     \<in> set (snd (submit chatty both fresh)) \<and>
   response_text (generate_content chatty (extract_request (Some [37, 80, 68, 70]) (ascii ''Extract.'')))
     = Inr (ascii ''no fences here, not json'') \<and>
   json_loads chatty (clean_model_json (ascii ''no fences here, not json'')) = Inl JSONDecodeError \<and>
   pdf_extracted (fst (submit chatty both fresh)) = PStr (ascii ''no fences here, not json'') \<and>
   pdf_extract_raw (fst (submit chatty both fresh)) = Some (ascii ''no fences here, not json'') \<and>
   AuditCall (audit_request [137, 80, 78, 71] (ascii ''image/png'')
       (base_system @ context_header @ ascii ''no fences here, not json''))
     \<in> set (snd (submit chatty both fresh)) \<and>
   response_text (generate_content chatty (audit_request [137, 80, 78, 71] (ascii ''image/png'')
       (base_system @ context_header @ ascii ''no fences here, not json'')))
     = Inr (ascii ''no fences here, not json'') \<and>
   ascii ''no fences here, not json'' \<noteq> [] \<and>
   (\<exists>tr0. snd (submit chatty both fresh) =
      tr0 @ [AuditCall (audit_request [137, 80, 78, 71] (ascii ''image/png'')
               (base_system @ context_header @ ascii ''no fences here, not json'')),
             StHeadingResult, StUnparsedCard (ascii ''no fences here, not json'')]) \<and>
   json_loads chatty (ascii ''no fences here, not json'') = Inl JSONDecodeError \<and>
   display_result chatty (ascii ''no fences here, not json'') =
     [StHeadingResult, StUnparsedCard (ascii ''no fences here, not json'')]"
proof -
  let ?t = "ascii ''no fences here, not json''"
  let ?r = "extract_request (Some [37, 80, 68, 70]) (ascii ''Extract.'')"
  let ?a = "audit_request [137, 80, 78, 71] (ascii ''image/png'') (base_system @ context_header @ ?t)"
  have h1: "submit chatty both fresh = (fst (submit chatty both fresh), snd (submit chatty both fresh))"
    by simp
  have h2: "ExtractCall ?r \<in> set (snd (submit chatty both fresh))"
    by (simp add: chatty_run)
  have h3: "response_text (generate_content chatty ?r) = Inr ?t"
    using strip_plain
    by (simp add: chatty_def ref_env_def scripted_def extract_request_def answer_def response_text_def)
  have h4: "json_loads chatty (clean_model_json ?t) = Inl JSONDecodeError"
    by (simp add: chatty_def ref_env_def plain_text_unchanged loads_plain)
  have h5: "AuditCall ?a \<in> set (snd (submit chatty both fresh))"
    by (simp add: chatty_run)
  have h6: "response_text (generate_content chatty ?a) = Inr ?t"
    using strip_plain
    by (simp add: chatty_def ref_env_def scripted_def audit_request_def answer_def response_text_def
        ascii_Cons ascii_Nil)
  have h7: "?t \<noteq> []"
    by (simp add: ascii_Cons)
  have h8: "json_loads chatty ?t = Inl JSONDecodeError"
    by (simp add: chatty_def ref_env_def loads_plain)
  note T = parse_failure_is_soft [OF h1]
  from T h2 h3 h4 have c1: "pdf_extracted (fst (submit chatty both fresh)) = PStr ?t \<and>
      pdf_extract_raw (fst (submit chatty both fresh)) = Some ?t"
    by blast
  from T h5 h6 h7 h4 have c2: "\<exists>tr0. snd (submit chatty both fresh) =
      tr0 @ [AuditCall ?a, StHeadingResult, StUnparsedCard ?t]"
    by blast
  from T h8 have c3: "display_result chatty ?t = [StHeadingResult, StUnparsedCard ?t]"
    by blast
  from h1 h2 h3 h4 h5 h6 h7 h8 c1 c2 c3 show ?thesis
    by blast
qed

text \<open>
  Claim C5 as stated fails for an empty answer to the audit call.  The empty text is not
  valid JSON, yet the run below ends right after the call: no heading and no card are
  written, so the answer is not displayed.
\<close>

theorem empty_answer_shows_nothing:
  "generate_content silent (audit_request [137, 80, 78, 71] (ascii ''image/png'') base_system) =
     Inr (Some []) \<and>
   json_loads silent (clean_model_json []) = Inl JSONDecodeError \<and>
   submit silent image_only fresh =
     (fresh, [AuditCall (audit_request [137, 80, 78, 71] (ascii ''image/png'') base_system)]) \<and>
   StUnparsedCard [] \<notin> set (snd (submit silent image_only fresh))"
proof -
  have a: "generate_content silent (audit_request [137, 80, 78, 71] (ascii ''image/png'') base_system) =
     Inr (Some [])"
    by (simp add: silent_def ref_env_def scripted_def audit_request_def answer_def ascii_Cons ascii_Nil)
  have b: "json_loads silent (clean_model_json []) = Inl JSONDecodeError"
    by (simp add: silent_def ref_env_def loads_empty)
  have c: "StUnparsedCard [] \<notin> set (snd (submit silent image_only fresh))"
    by (simp add: silent_run)
  from a b c silent_run show ?thesis by simp
qed

section \<open>The display of the verdict\<close>

text \<open>
  Claim C6, as amended.  Take a Submit that makes its audit call and gets a text back,
  trimmed of white space.  When the text is not empty and its cleaned form parses to a
  dict whose \<open>Issue_Present\<close> is a boolean, the run ends with the result heading and a
  card decided by that boolean alone: \<open>False\<close> gives the success card and \<open>True\<close> the
  error card, and both carry the category, the description and the resolution.  When the
  text is not empty and the parser rejects its cleaned form with \<open>JSONDecodeError\<close>,
  the run ends with the result heading and the card for unparsed output, which carries
  the text.  When the text is empty the run ends with the audit call: neither heading
  nor card is written.
\<close>

theorem verdict_treatment:
  assumes "submit e inp s = (s', tr)"
    and "AuditCall req \<in> set tr"
    and "response_text (generate_content e req) = Inr t"
  shows "(t \<noteq> [] \<and> json_loads e (clean_model_json t) = Inr (PDict d) \<and>
          map_of d (ascii ''Issue_Present'') = Some (PBool b) \<longrightarrow>
            (\<exists>tr0. tr = tr0 @
               [AuditCall req, StHeadingResult,
                StResultCard (if b then ErrorCard else SuccessCard)
                  (dict_get d (ascii ''Category'') (PStr (ascii ''Unknown'')))
                  (dict_get d (ascii ''Description'') (PStr (ascii ''No description provided.'')))
                  (dict_get d (ascii ''Resolution'') (PStr (ascii ''No Soultion provided.'')))])) \<and>
         (t \<noteq> [] \<and> json_loads e (clean_model_json t) = Inl JSONDecodeError \<longrightarrow>
            (\<exists>tr0. tr = tr0 @ [AuditCall req, StHeadingResult, StUnparsedCard t])) \<and>
         (t = [] \<longrightarrow> (\<exists>tr0. tr = tr0 @ [AuditCall req]))"
proof -
  from audit_tail [OF assms]
  obtain tr0 where tr: "tr = tr0 @ AuditCall req # (if t = [] then [] else display_result e t)"
    by blast
  show ?thesis
  proof (intro conjI impI)
    assume a: "t \<noteq> [] \<and> json_loads e (clean_model_json t) = Inr (PDict d) \<and>
          map_of d (ascii ''Issue_Present'') = Some (PBool b)"
    then have "display_result e t =
        [StHeadingResult,
         StResultCard (if b then ErrorCard else SuccessCard)
           (dict_get d (ascii ''Category'') (PStr (ascii ''Unknown'')))
           (dict_get d (ascii ''Description'') (PStr (ascii ''No description provided.'')))
           (dict_get d (ascii ''Resolution'') (PStr (ascii ''No Soultion provided.'')))]"
      by (simp add: display_result_def dict_get_def)
    with tr a show "\<exists>tr0. tr = tr0 @
               [AuditCall req, StHeadingResult,
                StResultCard (if b then ErrorCard else SuccessCard)
                  (dict_get d (ascii ''Category'') (PStr (ascii ''Unknown'')))
                  (dict_get d (ascii ''Description'') (PStr (ascii ''No description provided.'')))
                  (dict_get d (ascii ''Resolution'') (PStr (ascii ''No Soultion provided.'')))]"
      by auto
  next
    assume a: "t \<noteq> [] \<and> json_loads e (clean_model_json t) = Inl JSONDecodeError"
    then have "display_result e t = [StHeadingResult, StUnparsedCard t]"
      by (simp add: display_result_def)
    with tr a show "\<exists>tr0. tr = tr0 @ [AuditCall req, StHeadingResult, StUnparsedCard t]"
      by auto
  next
    assume "t = []"
    with tr show "\<exists>tr0. tr = tr0 @ [AuditCall req]"
      by auto
  qed
qed

theorem verdict_treatment_witness:
  "submit (judge verdict_false) image_only fresh =
     (fst (submit (judge verdict_false) image_only fresh),
      snd (submit (judge verdict_false) image_only fresh)) \<and>
   AuditCall (audit_request [137, 80, 78, 71] (ascii ''image/png'') base_system)
     \<in> set (snd (submit (judge verdict_false) image_only fresh)) \<and>
   response_text (generate_content (judge verdict_false)
     (audit_request [137, 80, 78, 71] (ascii ''image/png'') base_system)) = Inr verdict_false \<and>
   verdict_false \<noteq> [] \<and>
   json_loads (judge verdict_false) (clean_model_json verdict_false) =
     Inr (PDict [(ascii ''Issue_Present'', PBool False), (ascii ''Category'', PStr (ascii ''Cleanliness'')),
                 (ascii ''Description'', PStr (ascii ''x'')), (ascii ''Resolution'', PStr (ascii ''y''))]) \<and>
   (\<exists>tr0. snd (submit (judge verdict_false) image_only fresh) = tr0 @
      [AuditCall (audit_request [137, 80, 78, 71] (ascii ''image/png'') base_system), StHeadingResult,
       StResultCard SuccessCard (PStr (ascii ''Cleanliness'')) (PStr (ascii ''x'')) (PStr (ascii ''y''))]) \<and>
   response_text (generate_content (judge verdict_true)
     (audit_request [137, 80, 78, 71] (ascii ''image/png'') base_system)) = Inr verdict_true \<and>
   verdict_true \<noteq> [] \<and>
   json_loads (judge verdict_true) (clean_model_json verdict_true) =
     Inr (PDict [(ascii ''Issue_Present'', PBool True), (ascii ''Category'', PStr (ascii ''Cleanliness'')),
                 (ascii ''Description'', PStr (ascii ''x'')), (ascii ''Resolution'', PStr (ascii ''y''))]) \<and>
   (\<exists>tr0. snd (submit (judge verdict_true) image_only fresh) = tr0 @
      [AuditCall (audit_request [137, 80, 78, 71] (ascii ''image/png'') base_system), StHeadingResult,
       StResultCard ErrorCard (PStr (ascii ''Cleanliness'')) (PStr (ascii ''x'')) (PStr (ascii ''y''))]) \<and>
   response_text (generate_content (judge (ascii ''Looks fine.''))
     (audit_request [137, 80, 78, 71] (ascii ''image/png'') base_system)) = Inr (ascii ''Looks fine.'') \<and>
   ascii ''Looks fine.'' \<noteq> [] \<and>
   json_loads (judge (ascii ''Looks fine.'')) (clean_model_json (ascii ''Looks fine.'')) =
     Inl JSONDecodeError \<and>
   (\<exists>tr0. snd (submit (judge (ascii ''Looks fine.'')) image_only fresh) = tr0 @
      [AuditCall (audit_request [137, 80, 78, 71] (ascii ''image/png'') base_system), StHeadingResult,
       StUnparsedCard (ascii ''Looks fine.'')]) \<and>
   response_text (generate_content (judge (ascii '' ''))
     (audit_request [137, 80, 78, 71] (ascii ''image/png'') base_system)) = Inr [] \<and>
   (\<exists>tr0. snd (submit (judge (ascii '' '')) image_only fresh) = tr0 @
      [AuditCall (audit_request [137, 80, 78, 71] (ascii ''image/png'') base_system)])"
proof -
  let ?r = "audit_request [137, 80, 78, 71] (ascii ''image/png'') base_system"
  let ?df = "[(ascii ''Issue_Present'', PBool False), (ascii ''Category'', PStr (ascii ''Cleanliness'')),
              (ascii ''Description'', PStr (ascii ''x'')), (ascii ''Resolution'', PStr (ascii ''y''))]"
  let ?dt = "[(ascii ''Issue_Present'', PBool True), (ascii ''Category'', PStr (ascii ''Cleanliness'')),
              (ascii ''Description'', PStr (ascii ''x'')), (ascii ''Resolution'', PStr (ascii ''y''))]"
  have run: "\<And>v. submit (judge v) image_only fresh =
      (fst (submit (judge v) image_only fresh), snd (submit (judge v) image_only fresh))"
    by simp
  have g: "dict_get ?df (ascii ''Category'') (PStr (ascii ''Unknown'')) = PStr (ascii ''Cleanliness'')"
    "dict_get ?df (ascii ''Description'') (PStr (ascii ''No description provided.'')) = PStr (ascii ''x'')"
    "dict_get ?df (ascii ''Resolution'') (PStr (ascii ''No Soultion provided.'')) = PStr (ascii ''y'')"
    "dict_get ?dt (ascii ''Category'') (PStr (ascii ''Unknown'')) = PStr (ascii ''Cleanliness'')"
    "dict_get ?dt (ascii ''Description'') (PStr (ascii ''No description provided.'')) = PStr (ascii ''x'')"
    "dict_get ?dt (ascii ''Resolution'') (PStr (ascii ''No Soultion provided.'')) = PStr (ascii ''y'')"
    by (simp_all add: dict_get_def ascii_Cons ascii_Nil)
  have f1: "response_text (generate_content (judge verdict_false) ?r) = Inr verdict_false"
    by (simp add: judge_answer strip_verdict_false)
  have f2: "verdict_false \<noteq> []"
    by (simp add: verdict_false_def ascii_Cons)
  have f3: "json_loads (judge verdict_false) (clean_model_json verdict_false) = Inr (PDict ?df)"
    by (simp add: judge_loads loads_verdict_false)
  have f4: "map_of ?df (ascii ''Issue_Present'') = Some (PBool False)"
    by simp
  from verdict_treatment [OF run judge_call f1, of ?df False] f2 f3 f4
  have c1: "\<exists>tr0. snd (submit (judge verdict_false) image_only fresh) = tr0 @
      [AuditCall ?r, StHeadingResult,
       StResultCard SuccessCard (PStr (ascii ''Cleanliness'')) (PStr (ascii ''x'')) (PStr (ascii ''y''))]"
    by (simp add: g)
  have t1: "response_text (generate_content (judge verdict_true) ?r) = Inr verdict_true"
    by (simp add: judge_answer strip_verdict_true)
  have t2: "verdict_true \<noteq> []"
    by (simp add: verdict_true_def ascii_Cons)
  have t3: "json_loads (judge verdict_true) (clean_model_json verdict_true) = Inr (PDict ?dt)"
    by (simp add: judge_loads loads_verdict_true)
  have t4: "map_of ?dt (ascii ''Issue_Present'') = Some (PBool True)"
    by simp
  from verdict_treatment [OF run judge_call t1, of ?dt True] t2 t3 t4
  have c2: "\<exists>tr0. snd (submit (judge verdict_true) image_only fresh) = tr0 @
      [AuditCall ?r, StHeadingResult,
       StResultCard ErrorCard (PStr (ascii ''Cleanliness'')) (PStr (ascii ''x'')) (PStr (ascii ''y''))]"
    by (simp add: g)
  have u1: "response_text (generate_content (judge (ascii ''Looks fine.'')) ?r) = Inr (ascii ''Looks fine.'')"
    by (simp add: judge_answer strip_prose)
  have u2: "ascii ''Looks fine.'' \<noteq> []"
    by (simp add: ascii_Cons)
  have u3: "json_loads (judge (ascii ''Looks fine.'')) (clean_model_json (ascii ''Looks fine.'')) =
     Inl JSONDecodeError"
    by (simp add: judge_loads loads_prose)
  from verdict_treatment [OF run judge_call u1, of "[]" True] u2 u3
  have c3: "\<exists>tr0. snd (submit (judge (ascii ''Looks fine.'')) image_only fresh) = tr0 @
      [AuditCall ?r, StHeadingResult, StUnparsedCard (ascii ''Looks fine.'')]"
    by blast
  have b1: "response_text (generate_content (judge (ascii '' '')) ?r) = Inr []"
    by (simp add: judge_answer strip_blank)
  from verdict_treatment [OF run judge_call b1, of "[]" True]
  have c4: "\<exists>tr0. snd (submit (judge (ascii '' '')) image_only fresh) = tr0 @ [AuditCall ?r]"
    by blast
  from run [of verdict_false] judge_call [of verdict_false] f1 f2 f3 c1 t1 t2 t3 c2 u1 u2 u3 c3 b1 c4
  show ?thesis by blast
qed

text \<open>
  Claim C6 as stated fails for an answer of white space only.  Such an answer is not
  valid JSON, so the verdict is unparsed, yet the run below ends with the audit call and
  writes no card of any kind.
\<close>

theorem blank_answer_renders_nothing:
  "generate_content (judge (ascii '' ''))
     (audit_request [137, 80, 78, 71] (ascii ''image/png'') base_system) = Inr (Some (ascii '' '')) \<and>
   json_loads (judge (ascii '' '')) (clean_model_json (ascii '' '')) = Inl JSONDecodeError \<and>
   snd (submit (judge (ascii '' '')) image_only fresh) =
     [AuditCall (audit_request [137, 80, 78, 71] (ascii ''image/png'') base_system)] \<and>
   StUnparsedCard (ascii '' '') \<notin> set (snd (submit (judge (ascii '' '')) image_only fresh)) \<and>
   StUnparsedCard [] \<notin> set (snd (submit (judge (ascii '' '')) image_only fresh))"
proof -
  have a: "generate_content (judge (ascii '' ''))
     (audit_request [137, 80, 78, 71] (ascii ''image/png'') base_system) = Inr (Some (ascii '' ''))"
    by (simp add: judge_def ref_env_def scripted_def audit_request_def ascii_Cons ascii_Nil)
  have l: "ref_loads (clean_model_json (ascii '' '')) = Inl JSONDecodeError"
    by code_simp
  have b: "json_loads (judge (ascii '' '')) (clean_model_json (ascii '' '')) = Inl JSONDecodeError"
    by (simp add: judge_loads l)
  have c: "snd (submit (judge (ascii '' '')) image_only fresh) =
     [AuditCall (audit_request [137, 80, 78, 71] (ascii ''image/png'') base_system)]"
    by (simp add: blank_run)
  from a b c show ?thesis by simp
qed


text \<open>
  Claim C10.  When the cleaned answer parses to a dict, the display is a result card
  whatever keys the dict has, never an uncaught exception: each of the four fields is the
  value under its key, or its default when the key is missing (\<open>False\<close>, \<open>Unknown\<close>,
  \<open>No description provided.\<close>, \<open>No Soultion provided.\<close>), and without \<open>Issue_Present\<close>
  the card is the success card.
\<close>

theorem verdict_defaults:
  assumes "json_loads e (clean_model_json t) = Inr (PDict d)"
  shows "display_result e t =
    [StHeadingResult,
     StResultCard
       (if py_eq_False (case map_of d (ascii ''Issue_Present'') of None \<Rightarrow> PBool False | Some v \<Rightarrow> v)
        then SuccessCard else ErrorCard)
       (case map_of d (ascii ''Category'') of None \<Rightarrow> PStr (ascii ''Unknown'') | Some v \<Rightarrow> v)
       (case map_of d (ascii ''Description'') of
          None \<Rightarrow> PStr (ascii ''No description provided.'') | Some v \<Rightarrow> v)
       (case map_of d (ascii ''Resolution'') of
          None \<Rightarrow> PStr (ascii ''No Soultion provided.'') | Some v \<Rightarrow> v)] \<and>
    (map_of d (ascii ''Issue_Present'') = None \<longrightarrow>
       (\<exists>cat desc res. display_result e t = [StHeadingResult, StResultCard SuccessCard cat desc res]))"
  using assms by (simp add: display_result_def dict_get_def)

theorem verdict_defaults_witness:
  \<open>json_loads terse (clean_model_json (ascii ''{"Category": "Condition"}'')) =
     Inr (PDict [(ascii ''Category'', PStr (ascii ''Condition''))]) \<and>
   display_result terse (ascii ''{"Category": "Condition"}'') =
     [StHeadingResult,
      StResultCard SuccessCard (PStr (ascii ''Condition'')) (PStr (ascii ''No description provided.''))
        (PStr (ascii ''No Soultion provided.''))]\<close>
proof -
  have h: \<open>json_loads terse (clean_model_json (ascii ''{"Category": "Condition"}'')) =
     Inr (PDict [(ascii ''Category'', PStr (ascii ''Condition''))])\<close>
    by (simp add: terse_def ref_env_def loads_category)
  from verdict_defaults [OF h]
  have \<open>display_result terse (ascii ''{"Category": "Condition"}'') =
     [StHeadingResult,
      StResultCard SuccessCard (PStr (ascii ''Condition'')) (PStr (ascii ''No description provided.''))
        (PStr (ascii ''No Soultion provided.''))]\<close>
    by (simp add: ascii_Cons ascii_Nil)
  with h show ?thesis by blast
qed

section \<open>The system instruction of the audit\<close>

text \<open>
  Claim C8, as amended.  When the context is a value that Python takes as true, the
  system instruction is the rubric, then the line
  \<open>Context from brand standards (extracted):\<close> between two line breaks before and one
  after, then the rendering of the context: \<open>json.dumps\<close> for a dict or a list, the
  string itself for a string, \<open>str\<close> of the value otherwise.  When the context is
  \<open>None\<close> or any other value that Python takes as false, the system instruction is the
  rubric alone.  With the API key set, this instruction is the one of the request sent.
\<close>

theorem system_instruction_cases:
  "(py_truthy ctx \<longrightarrow>
      system_instruction_text e ctx =
        base_system @ context_header @
        (case ctx of
           PDict d \<Rightarrow> json_dumps e ctx
         | PList xs \<Rightarrow> json_dumps e ctx
         | PStr str \<Rightarrow> str
         | _ \<Rightarrow> py_repr e ctx)) \<and>
   (\<not> py_truthy ctx \<longrightarrow> system_instruction_text e ctx = base_system) \<and>
   (truthy_opt (api_key e) \<longrightarrow>
      snd (call_gemini_api e ib m ctx) =
        [AuditCall (audit_request ib m (system_instruction_text e ctx))])"
  by (cases ctx) (simp_all add: system_instruction_text_def to_str_def call_gemini_api_def Let_def)

theorem system_instruction_cases_witness:
  "py_truthy (PDict [(ascii ''a'', PInt 1)]) \<and>
   system_instruction_text terse (PDict [(ascii ''a'', PInt 1)]) =
     base_system @ context_header @ json_dumps terse (PDict [(ascii ''a'', PInt 1)]) \<and>
   py_truthy (PStr (ascii ''old spec'')) \<and>
   system_instruction_text terse (PStr (ascii ''old spec'')) =
     base_system @ context_header @ ascii ''old spec'' \<and>
   \<not> py_truthy PNone \<and>
   system_instruction_text terse PNone = base_system \<and>
   truthy_opt (api_key terse) \<and>
   snd (call_gemini_api terse [137, 80, 78, 71] (ascii ''image/png'') PNone) =
     [AuditCall (audit_request [137, 80, 78, 71] (ascii ''image/png'')
        (system_instruction_text terse PNone))]"
proof -
  have a: "py_truthy (PDict [(ascii ''a'', PInt 1)])" by simp
  have b: "py_truthy (PStr (ascii ''old spec''))" by (simp add: ascii_Cons)
  have c: "\<not> py_truthy PNone" by simp
  have d: "truthy_opt (api_key terse)" by (simp add: terse_def)
  from system_instruction_cases [of "PDict [(ascii ''a'', PInt 1)]" terse] a
  have c1: "system_instruction_text terse (PDict [(ascii ''a'', PInt 1)]) =
     base_system @ context_header @ json_dumps terse (PDict [(ascii ''a'', PInt 1)])"
    by simp
  from system_instruction_cases [of "PStr (ascii ''old spec'')" terse] b
  have c2: "system_instruction_text terse (PStr (ascii ''old spec'')) =
     base_system @ context_header @ ascii ''old spec''"
    by simp
  from system_instruction_cases [of PNone terse "[137, 80, 78, 71]" "ascii ''image/png''"] c d
  have c3: "system_instruction_text terse PNone = base_system"
    and c4: "snd (call_gemini_api terse [137, 80, 78, 71] (ascii ''image/png'') PNone) =
     [AuditCall (audit_request [137, 80, 78, 71] (ascii ''image/png'')
        (system_instruction_text terse PNone))]"
    by simp_all
  from a b c d c1 c2 c3 c4 show ?thesis by blast
qed

text \<open>
  Claim C8 as stated fails for a context that is present and that Python takes as false.
  The stored value of the session below is the empty dict, whose JSON rendering is \<open>{}\<close>;
  the system instruction computed from it is the rubric alone, not the rubric followed by
  the rendering.  For a string, too, the instruction is not the rubric directly followed
  by the string, since the line that introduces the context stands between them.
\<close>

theorem empty_dict_context_is_dropped:
  "pdf_extracted emptied = PDict [] \<and>
   json_dumps terse (PDict []) = ascii ''{}'' \<and>
   system_instruction_text terse (PDict []) = base_system \<and>
   system_instruction_text terse (PDict []) \<noteq> base_system @ json_dumps terse (PDict []) \<and>
   system_instruction_text terse (PStr (ascii ''old spec'')) \<noteq> base_system @ ascii ''old spec''"
proof -
  have a: "pdf_extracted emptied = PDict []"
    by (simp add: emptied_def)
  have b: "json_dumps terse (PDict []) = ascii ''{}''"
    by (simp add: terse_def ref_env_def ascii_def)
  have c: "system_instruction_text terse (PDict []) = base_system"
    by (simp add: system_instruction_text_def)
  have d: "system_instruction_text terse (PDict []) \<noteq> base_system @ json_dumps terse (PDict [])"
    by (simp add: b c ascii_Cons)
  have e: "system_instruction_text terse (PStr (ascii ''old spec'')) \<noteq> base_system @ ascii ''old spec''"
    by (simp add: system_instruction_text_def to_str_def context_header_def ascii_Cons ascii_Nil)
  from a b c d e show ?thesis by blast
qed

text \<open>
  Claim C9.  Let the stored extraction be a value that Python takes as false, such as an
  empty dict, an empty list or an empty string, in a Submit that passes the image
  validation with the API key set.  Then the system instruction computed from that value
  is the rubric alone; without a document attached the audit call is made with the rubric
  alone; and with a document attached exactly one extraction call is made, whatever the
  stored digest is, also when it is the digest of the attached document.
\<close>

theorem falsy_context_as_absent:
  assumes "\<not> py_truthy (pdf_extracted s)"
    and "image_file inp = Some img" and "read_result img = Inr ib"
    and "truthy_opt (api_key e)"
  shows "system_instruction_text e (pdf_extracted s) = base_system \<and>
     (pdf_file inp = None \<longrightarrow>
        audit_calls (snd (submit e inp s)) = [audit_request ib (image_mime_of img) base_system]) \<and>
     (\<forall>f. pdf_file inp = Some f \<longrightarrow>
        extract_calls (snd (submit e inp s)) =
          [extract_request (case read_result f of Inr b \<Rightarrow> Some b | Inl err \<Rightarrow> None)
             (pdf_system_prompt s)])"
proof (intro conjI impI allI)
  show sys: "system_instruction_text e (pdf_extracted s) = base_system"
    using assms(1) by (simp add: system_instruction_text_def)
  from submit_valid [OF assms(2,3)]
  obtain s' ctx tr1 where step: "pdf_step e (pdf_file inp) s = (s', ctx, tr1)"
    and sub: "submit e inp s = (s', tr1 @ audit_step e ib (image_mime_of img) ctx)"
    by blast
  {
    assume "pdf_file inp = None"
    with step have "ctx = pdf_extracted s" "tr1 = []"
      by (auto simp: pdf_step_def)
    with sub sys assms(4)
    show "audit_calls (snd (submit e inp s)) = [audit_request ib (image_mime_of img) base_system]"
      by (simp add: audit_step_audit)
  }
  {
    fix f assume f: "pdf_file inp = Some f"
    obtain pb nh warn where r: "read_pdf e f = (pb, nh, warn)"
      by (cases "read_pdf e f") auto
    from assms(1) have need: "needs_extraction s nh"
      by (simp add: needs_extraction_def)
    from pdf_step_cases [OF step] f r need
    obtain tr' where run: "run_extraction e pb nh s = (s', ctx, tr')" and tr1: "tr1 = warn @ tr'"
      by auto
    from run_extraction_cases [OF run] assms(4)
    have "extract_calls tr' = [extract_request pb (pdf_system_prompt s)]"
      by auto
    with sub tr1 read_pdf_warn [OF r]
    show "extract_calls (snd (submit e inp s)) =
          [extract_request (case read_result f of Inr b \<Rightarrow> Some b | Inl err \<Rightarrow> None)
             (pdf_system_prompt s)]"
      by simp
  }
qed

theorem falsy_context_as_absent_witness:
  "\<not> py_truthy (pdf_extracted emptied) \<and>
   image_file both = Some png \<and> image_file image_only = Some png \<and>
   read_result png = Inr [137, 80, 78, 71] \<and>
   truthy_opt (api_key terse) \<and>
   pdf_file image_only = None \<and>
   audit_calls (snd (submit terse image_only emptied)) =
     [audit_request [137, 80, 78, 71] (image_mime_of png) base_system] \<and>
   pdf_file both = Some pdf \<and>
   pdf_hash emptied = Some (hexdigest (sha256 terse [37, 80, 68, 70])) \<and>
   extract_calls (snd (submit terse both emptied)) =
     [extract_request (Some [37, 80, 68, 70]) (pdf_system_prompt emptied)]"
proof -
  have a: "\<not> py_truthy (pdf_extracted emptied)" by (simp add: emptied_def)
  have b1: "image_file both = Some png" by (simp add: both_def)
  have b2: "image_file image_only = Some png" by (simp add: image_only_def)
  have d: "truthy_opt (api_key terse)" by (simp add: terse_def)
  have e: "pdf_file image_only = None" by (simp add: image_only_def)
  have f: "pdf_file both = Some pdf" by (simp add: both_def)
  have g: "pdf_hash emptied = Some (hexdigest (sha256 terse [37, 80, 68, 70]))"
    by (simp add: emptied_def terse_def ref_env_def)
  from falsy_context_as_absent [OF a b2 png_read d] e
  have c1: "audit_calls (snd (submit terse image_only emptied)) =
     [audit_request [137, 80, 78, 71] (image_mime_of png) base_system]"
    by blast
  from falsy_context_as_absent [OF a b1 png_read d] f
  have c2: "extract_calls (snd (submit terse both emptied)) =
     [extract_request (Some [37, 80, 68, 70]) (pdf_system_prompt emptied)]"
    by (simp add: pdf_read)
  from a b1 b2 png_read d e f g c1 c2 show ?thesis by blast
qed

section \<open>Cleaning the answer\<close>

text \<open>
  Claim C3, as amended.  \<open>clean_model_json\<close> returns, trimmed of white space at both
  ends: the text itself when it contains no fence; when it contains a fence tagged
  \<open>json\<close>, what stands between the first such fence and the last fence behind it, or
  all that follows the first such fence when no fence stands behind it; and when it
  contains a fence but none tagged \<open>json\<close>, what stands between the first fence and the
  last fence behind it, or all that follows the first fence when no other one stands
  behind it.  For the text made of the fence tagged \<open>json\<close>, a line break, \<open>{"a":1}\<close>,
  a line break and the closing fence, the result is \<open>{"a":1}\<close>, so that with a parser
  that reads this as the mapping of \<open>a\<close> to 1 the extraction stores that mapping.
\<close>

theorem clean_model_json_cases:
  \<open>(\<not> str_contains fence t \<longrightarrow> clean_model_json t = strip t) \<and>
   (t = pre @ fence_json @ body @ fence @ post \<and>
    \<not> str_contains fence_json (pre @ butlast fence_json) \<and>
    \<not> str_contains fence (tl fence @ post) \<longrightarrow>
      clean_model_json t = strip body) \<and>
   (t = pre @ fence_json @ body \<and>
    \<not> str_contains fence_json (pre @ butlast fence_json) \<and>
    \<not> str_contains fence body \<longrightarrow>
      clean_model_json t = strip body) \<and>
   (\<not> str_contains fence_json t \<and>
    t = pre @ fence @ body @ fence @ post \<and>
    \<not> str_contains fence (pre @ butlast fence) \<and>
    \<not> str_contains fence (tl fence @ post) \<longrightarrow>
      clean_model_json t = strip body) \<and>
   (\<not> str_contains fence_json t \<and>
    t = pre @ fence @ body \<and>
    \<not> str_contains fence (pre @ butlast fence) \<and>
    \<not> str_contains fence body \<longrightarrow>
      clean_model_json t = strip body) \<and>
   clean_model_json (ascii ''```json\<newline>{"a":1}\<newline>```'') = ascii ''{"a":1}'' \<and>
   (json_loads e (ascii ''{"a":1}'') = Inr (PDict [(ascii ''a'', PInt 1)]) \<longrightarrow>
      parse_or_raw e (ascii ''```json\<newline>{"a":1}\<newline>```'') = PDict [(ascii ''a'', PInt 1)])\<close>
proof (intro conjI impI)
  assume "\<not> str_contains fence t"
  then show "clean_model_json t = strip t"
    by (simp add: clean_model_json_def try_fence_absent no_fence_no_json)
next
  assume "t = pre @ fence_json @ body @ fence @ post \<and>
    \<not> str_contains fence_json (pre @ butlast fence_json) \<and>
    \<not> str_contains fence (tl fence @ post)"
  then show "clean_model_json t = strip body"
    by (simp add: clean_model_json_def try_fence_closed)
next
  assume "t = pre @ fence_json @ body \<and>
    \<not> str_contains fence_json (pre @ butlast fence_json) \<and>
    \<not> str_contains fence body"
  then show "clean_model_json t = strip body"
    by (simp add: clean_model_json_def try_fence_open)
next
  assume a: "\<not> str_contains fence_json t \<and>
    t = pre @ fence @ body @ fence @ post \<and>
    \<not> str_contains fence (pre @ butlast fence) \<and>
    \<not> str_contains fence (tl fence @ post)"
  then have n: "\<not> str_contains fence_json t"
    and t: "t = pre @ fence @ body @ fence @ post"
    and f: "\<not> str_contains fence (pre @ butlast fence)"
    and l: "\<not> str_contains fence (tl fence @ post)"
    by blast+
  from try_fence_absent [OF n] try_fence_closed [OF fence_nonempty(1) f l, of body] t
  show "clean_model_json t = strip body"
    by (simp add: clean_model_json_def)
next
  assume a: "\<not> str_contains fence_json t \<and>
    t = pre @ fence @ body \<and>
    \<not> str_contains fence (pre @ butlast fence) \<and>
    \<not> str_contains fence body"
  then have n: "\<not> str_contains fence_json t"
    and t: "t = pre @ fence @ body"
    and f: "\<not> str_contains fence (pre @ butlast fence)"
    and l: "\<not> str_contains fence body"
    by blast+
  from try_fence_absent [OF n] try_fence_open [OF fence_nonempty(1) f l] t
  show "clean_model_json t = strip body"
    by (simp add: clean_model_json_def)
next
  show \<open>clean_model_json (ascii ''```json\<newline>{"a":1}\<newline>```'') = ascii ''{"a":1}''\<close>
    by (rule fenced_example)
next
  assume \<open>json_loads e (ascii ''{"a":1}'') = Inr (PDict [(ascii ''a'', PInt 1)])\<close>
  then show \<open>parse_or_raw e (ascii ''```json\<newline>{"a":1}\<newline>```'') = PDict [(ascii ''a'', PInt 1)]\<close>
    by (simp add: parse_or_raw_def fenced_example)
qed

theorem clean_model_json_cases_witness:
  \<open>\<not> str_contains fence (ascii ''{}'') \<and>
   clean_model_json (ascii ''{}'') = strip (ascii ''{}'') \<and>
   ascii ''```json\<newline>{"a":1}\<newline>```'' =
     [] @ fence_json @ ascii ''\<newline>{"a":1}\<newline>'' @ fence @ [] \<and>
   \<not> str_contains fence_json ([] @ butlast fence_json) \<and>
   \<not> str_contains fence (tl fence @ []) \<and>
   clean_model_json (ascii ''```json\<newline>{"a":1}\<newline>```'') = strip (ascii ''\<newline>{"a":1}\<newline>'') \<and>
   ascii ''```json\<newline>[]'' = [] @ fence_json @ ascii ''\<newline>[]'' \<and>
   \<not> str_contains fence (ascii ''\<newline>[]'') \<and>
   clean_model_json (ascii ''```json\<newline>[]'') = strip (ascii ''\<newline>[]'') \<and>
   \<not> str_contains fence_json (ascii ''Result: ```\<newline>[]\<newline>``` done'') \<and>
   ascii ''Result: ```\<newline>[]\<newline>``` done'' =
     ascii ''Result: '' @ fence @ ascii ''\<newline>[]\<newline>'' @ fence @ ascii '' done'' \<and>
   \<not> str_contains fence (ascii ''Result: '' @ butlast fence) \<and>
   \<not> str_contains fence (tl fence @ ascii '' done'') \<and>
   clean_model_json (ascii ''Result: ```\<newline>[]\<newline>``` done'') = strip (ascii ''\<newline>[]\<newline>'') \<and>
   \<not> str_contains fence_json (ascii ''```\<newline>[]'') \<and>
   ascii ''```\<newline>[]'' = [] @ fence @ ascii ''\<newline>[]'' \<and>
   \<not> str_contains fence ([] @ butlast fence) \<and>
   clean_model_json (ascii ''```\<newline>[]'') = strip (ascii ''\<newline>[]'') \<and>
   json_loads terse (ascii ''{"a":1}'') = Inr (PDict [(ascii ''a'', PInt 1)]) \<and>
   parse_or_raw terse (ascii ''```json\<newline>{"a":1}\<newline>```'') = PDict [(ascii ''a'', PInt 1)]\<close>
proof -
  have a1: "\<not> str_contains fence (ascii ''{}'')"
    by code_simp
  have b1: \<open>ascii ''```json\<newline>{"a":1}\<newline>```'' =
     [] @ fence_json @ ascii ''\<newline>{"a":1}\<newline>'' @ fence @ []\<close>
    by (simp add: fence_def fence_json_def ascii_def)
  have b2: "\<not> str_contains fence_json ([] @ butlast fence_json)"
    by code_simp
  have b3: "\<not> str_contains fence (tl fence @ [])"
    by code_simp
  have c1: "ascii ''```json\<newline>[]'' = [] @ fence_json @ ascii ''\<newline>[]''"
    by (simp add: fence_json_def ascii_def)
  have c3: "\<not> str_contains fence (ascii ''\<newline>[]'')"
    by code_simp
  have d0: "\<not> str_contains fence_json (ascii ''Result: ```\<newline>[]\<newline>``` done'')"
    by code_simp
  have d1: "ascii ''Result: ```\<newline>[]\<newline>``` done'' =
     ascii ''Result: '' @ fence @ ascii ''\<newline>[]\<newline>'' @ fence @ ascii '' done''"
    by (simp add: fence_def ascii_def)
  have d2: "\<not> str_contains fence (ascii ''Result: '' @ butlast fence)"
    by code_simp
  have d3: "\<not> str_contains fence (tl fence @ ascii '' done'')"
    by code_simp
  have e0: "\<not> str_contains fence_json (ascii ''```\<newline>[]'')"
    by code_simp
  have e1: "ascii ''```\<newline>[]'' = [] @ fence @ ascii ''\<newline>[]''"
    by (simp add: fence_def ascii_def)
  have e2: "\<not> str_contains fence ([] @ butlast fence)"
    by code_simp
  have f1: \<open>json_loads terse (ascii ''{"a":1}'') = Inr (PDict [(ascii ''a'', PInt 1)])\<close>
    by (simp add: terse_def ref_env_def loads_a1_plain)
  from clean_model_json_cases [where t = "ascii ''{}''"] a1
  have r1: "clean_model_json (ascii ''{}'') = strip (ascii ''{}'')"
    by blast
  from clean_model_json_cases [where t = \<open>ascii ''```json\<newline>{"a":1}\<newline>```''\<close> and pre = "[]"
      and body = \<open>ascii ''\<newline>{"a":1}\<newline>''\<close> and post = "[]" and e = terse] b1 b2 b3 f1
  have r2: \<open>clean_model_json (ascii ''```json\<newline>{"a":1}\<newline>```'') = strip (ascii ''\<newline>{"a":1}\<newline>'')\<close>
    and r6: \<open>parse_or_raw terse (ascii ''```json\<newline>{"a":1}\<newline>```'') = PDict [(ascii ''a'', PInt 1)]\<close>
    by blast+
  from clean_model_json_cases [where t = "ascii ''```json\<newline>[]''" and pre = "[]"
      and body = "ascii ''\<newline>[]''"] c1 b2 c3
  have r3: "clean_model_json (ascii ''```json\<newline>[]'') = strip (ascii ''\<newline>[]'')"
    by blast
  from clean_model_json_cases [where t = "ascii ''Result: ```\<newline>[]\<newline>``` done''"
      and pre = "ascii ''Result: ''" and body = "ascii ''\<newline>[]\<newline>''" and post = "ascii '' done''"]
    d0 d1 d2 d3
  have r4: "clean_model_json (ascii ''Result: ```\<newline>[]\<newline>``` done'') = strip (ascii ''\<newline>[]\<newline>'')"
    by blast
  from clean_model_json_cases [where t = "ascii ''```\<newline>[]''" and pre = "[]"
      and body = "ascii ''\<newline>[]''"] e0 e1 e2 c3
  have r5: "clean_model_json (ascii ''```\<newline>[]'') = strip (ascii ''\<newline>[]'')"
    by blast
  from a1 b1 b2 b3 c1 c3 d0 d1 d2 d3 e0 e1 e2 f1 r1 r2 r3 r4 r5 r6 show ?thesis
    by blast
qed

text \<open>
  Claim C3 as stated fails when more than one fenced block is present: the block is
  closed by the last fence of the text, not by the one that pairs with the opening fence.
  For the text of two blocks, the reading of the specification gives the content of the
  first block, \<open>1\<close>, and the code gives everything up to the last fence.
\<close>

theorem later_fence_closes_block:
  "clean_model_json two_blocks = ascii ''1\<newline>```\<newline>```json\<newline>2'' \<and>
   spec_defence two_blocks = ascii ''1'' \<and>
   clean_model_json two_blocks \<noteq> spec_defence two_blocks"
  by code_simp

end
